theory Spec2Isabelle
  imports Complex_Main
begin

section \<open>JavaScript values\<close>

text \<open>
  The image-clarity pipeline passes whatever \<^verbatim>\<open>JSON.parse\<close> returns straight into its
  results, so the fields of a result hold run-time values, not the types of the TypeScript
  interfaces. A value is one of the JSON shapes, or \<^verbatim>\<open>undefined\<close>.

  Strings are byte lists holding the UTF-8 encoding of the text; every character the code
  looks for (braces, comma, colon, the prefix \<^verbatim>\<open>data:\<close>) is ASCII, and no byte of a
  multi-byte UTF-8 sequence is ASCII. A number is NaN, an infinity, the negative
  zero, or another finite IEEE double, held as the rational it denotes (\<open>Finite 0\<close> is the
  positive zero). Every number read from a text is rounded to the nearest double, ties to even,
  as the engines do; the standard allows another choice only beyond 20 significant digits.
\<close>

datatype jsnum = NaN | Finite rat | PosInf | NegInf | NegZero

datatype jsval =
    JUndefined
  | JNull
  | JBool bool
  | JNum jsnum
  | JStr string
  | JArr "jsval list"
  | JObj "(string \<times> jsval) list"

datatype error = TypeError | SyntaxError | ServiceError string

subsection \<open>Rounding to a double\<close>

definition neg_num :: "jsnum \<Rightarrow> jsnum" where
  "neg_num n =
     (case n of
        NaN \<Rightarrow> NaN
      | Finite q \<Rightarrow> if q = 0 then NegZero else Finite (- q)
      | PosInf \<Rightarrow> NegInf
      | NegInf \<Rightarrow> PosInf
      | NegZero \<Rightarrow> Finite 0)"

text \<open>
  The nearest double of a positive rational \<open>n / d\<close> is computed on integers. With \<open>e\<close> the
  binary exponent of the rational (\<open>2\<^sup>e \<le> n / d < 2\<^sup>e\<^sup>+\<^sup>1\<close>), the doubles around it are the
  multiples of \<open>2\<^sup>s\<close>, where \<open>s\<close> is \<open>e - 52\<close>, and \<open>-1074\<close> at least (the subnormal
  step). The rational is divided by \<open>2\<^sup>s\<close> and rounded to the nearest integer, to the even one
  of two that are equally near; that integer times \<open>2\<^sup>s\<close> is the double, and an infinity when
  it reaches \<open>2\<^sup>1\<^sup>0\<^sup>2\<^sup>4\<close>.
\<close>

text \<open>The number of binary digits of a positive integer.\<close>

fun bit_len :: "int \<Rightarrow> int" where
  "bit_len n = (if n \<le> 0 then 0 else 1 + bit_len (n div 2))"

declare bit_len.simps [simp del]

text \<open>\<open>n / d < 2\<^sup>e\<close>, for positive \<open>n\<close> and \<open>d\<close>.\<close>

definition below_pow2 :: "int \<Rightarrow> int \<Rightarrow> int \<Rightarrow> bool" where
  "below_pow2 n d e = (if 0 \<le> e then n < d * 2 ^ nat e else n * 2 ^ nat (- e) < d)"

text \<open>The binary exponent of \<open>n / d\<close>: the difference of the bit lengths of \<open>n\<close> and
  \<open>d\<close>, or one less.\<close>

definition adjust_log2 :: "int \<Rightarrow> int \<Rightarrow> int \<Rightarrow> int" where
  "adjust_log2 n d e = (if below_pow2 n d e then e - 1 else e)"

definition floor_log2 :: "int \<Rightarrow> int \<Rightarrow> int" where
  "floor_log2 n d = adjust_log2 n d (bit_len n - bit_len d)"

text \<open>The integer nearest to \<open>n / d\<close>, the even one when two are equally near: \<open>f\<close> is
  the quotient and \<open>r2\<close> twice the remainder.\<close>

definition tie_even :: "int \<Rightarrow> int \<Rightarrow> int \<Rightarrow> int" where
  "tie_even f r2 d =
     (if r2 < d then f else if d < r2 then f + 1 else if even f then f else f + 1)"

definition nearest_even :: "int \<Rightarrow> int \<Rightarrow> int" where
  "nearest_even n d = tie_even (n div d) (2 * (n mod d)) d"

text \<open>The double \<open>m \<times> 2\<^sup>s\<close>. The mantissa \<open>m\<close> is \<open>2\<^sup>5\<^sup>3\<close> at most, so only a positive
  \<open>s\<close> can reach the infinity.\<close>

definition finish :: "int \<Rightarrow> int \<Rightarrow> jsnum" where
  "finish m s =
     (if s \<le> 0 then Finite (of_int m / of_int (2 ^ nat (- s)))
      else if 2 ^ 1024 \<le> m * 2 ^ nat s then PosInf
      else Finite (of_int (m * 2 ^ nat s)))"

definition round_at :: "int \<Rightarrow> int \<Rightarrow> int \<Rightarrow> jsnum" where
  "round_at n d s =
     finish (nearest_even (if 0 \<le> s then n else n * 2 ^ nat (- s))
                          (if 0 \<le> s then d * 2 ^ nat s else d)) s"

definition round_frac :: "int \<Rightarrow> int \<Rightarrow> jsnum" where
  "round_frac n d = round_at n d (max (floor_log2 n d) (- 1022) - 52)"

text \<open>The double of a rational that is not negative; the sign of a literal is applied
  afterwards, so that a negative literal can give the negative zero.\<close>

definition round_pair :: "int \<times> int \<Rightarrow> jsnum" where
  "round_pair p = (if fst p \<le> 0 then Finite 0 else round_frac (fst p) (snd p))"

definition round_double :: "rat \<Rightarrow> jsnum" where
  "round_double q = round_pair (quotient_of q)"

definition signed :: "bool \<Rightarrow> jsnum \<Rightarrow> jsnum" where
  "signed neg n = (if neg then neg_num n else n)"

text \<open>Property read \<^verbatim>\<open>o.k\<close> on a parsed object: with duplicate keys the last one wins;
  a key that is absent reads as \<^verbatim>\<open>undefined\<close>.\<close>

fun get_prop :: "(string \<times> jsval) list \<Rightarrow> string \<Rightarrow> jsval" where
  "get_prop ms k = (case map_of (rev ms) k of None \<Rightarrow> JUndefined | Some v \<Rightarrow> v)"

definition has_prop :: "(string \<times> jsval) list \<Rightarrow> string \<Rightarrow> bool" where
  "has_prop ms k = (k \<in> set (map fst ms))"

text \<open>\<^verbatim>\<open>a ?? b\<close>: the right operand replaces \<^verbatim>\<open>null\<close> and \<^verbatim>\<open>undefined\<close> only.\<close>

fun nullish :: "jsval \<Rightarrow> bool" where
  "nullish JUndefined = True"
| "nullish JNull = True"
| "nullish _ = False"

definition coalesce :: "jsval \<Rightarrow> jsval \<Rightarrow> jsval" where
  "coalesce a b = (if nullish a then b else a)"

text \<open>ToBoolean, as used by \<^verbatim>\<open>!\<close>, \<^verbatim>\<open>||\<close> and \<^verbatim>\<open>if\<close>.\<close>

fun truthy :: "jsval \<Rightarrow> bool" where
  "truthy JUndefined = False"
| "truthy JNull = False"
| "truthy (JBool b) = b"
| "truthy (JNum n) = (n \<noteq> NaN \<and> n \<noteq> Finite 0 \<and> n \<noteq> NegZero)"
| "truthy (JStr s) = (s \<noteq> [])"
| "truthy (JArr _) = True"
| "truthy (JObj _) = True"

subsection \<open>Conversion of a string to a number\<close>

definition code :: "char \<Rightarrow> int" where
  "code c = of_char c"

definition is_digit :: "char \<Rightarrow> bool" where
  "is_digit c = (48 \<le> code c \<and> code c \<le> 57)"

definition digit_val :: "char \<Rightarrow> int" where
  "digit_val c = code c - 48"

definition digits_val :: "string \<Rightarrow> int" where
  "digits_val ds = foldl (\<lambda>n d. 10 * n + digit_val d) 0 ds"

definition hex_val :: "char \<Rightarrow> int option" where
  "hex_val c =
     (if is_digit c then Some (digit_val c)
      else if 97 \<le> code c \<and> code c \<le> 102 then Some (code c - 87)
      else if 65 \<le> code c \<and> code c \<le> 70 then Some (code c - 55)
      else None)"

text \<open>The value of a digit string in base \<open>b\<close>; \<open>None\<close> when a character is no digit
  of that base.\<close>

fun radix_val :: "int \<Rightarrow> int \<Rightarrow> string \<Rightarrow> int option" where
  "radix_val b acc [] = Some acc"
| "radix_val b acc (c # cs) =
     (case hex_val c of
        None \<Rightarrow> None
      | Some d \<Rightarrow> if d < b then radix_val b (b * acc + d) cs else None)"

text \<open>Leading white space and line terminators of the StringNumericLiteral grammar, in
  UTF-8: TAB, LF, VT, FF, CR, SP, U+00A0, U+1680, U+2000..U+200A, U+2028, U+2029, U+202F,
  U+205F, U+3000, U+FEFF.\<close>

fun strip_ws :: "string \<Rightarrow> string" where
  "strip_ws [] = []"
| "strip_ws (c # cs) =
     (if c \<in> {CHR 0x09, CHR 0x0A, CHR 0x0B, CHR 0x0C, CHR 0x0D, CHR 0x20} then strip_ws cs
      else if c = CHR 0xC2 \<and> take 1 cs = [CHR 0xA0] then strip_ws (drop 1 cs)
      else if c = CHR 0xE1 \<and> take 2 cs = [CHR 0x9A, CHR 0x80] then strip_ws (drop 2 cs)
      else if c = CHR 0xE2 \<and> take 1 cs = [CHR 0x80] \<and> length cs \<ge> 2
              \<and> (cs ! 1 \<in> {CHR 0xA8, CHR 0xA9, CHR 0xAF}
                 \<or> (0x80 \<le> code (cs ! 1) \<and> code (cs ! 1) \<le> 0x8A)) then strip_ws (drop 2 cs)
      else if c = CHR 0xE2 \<and> take 2 cs = [CHR 0x81, CHR 0x9F] then strip_ws (drop 2 cs)
      else if c = CHR 0xE3 \<and> take 2 cs = [CHR 0x80, CHR 0x80] then strip_ws (drop 2 cs)
      else if c = CHR 0xEF \<and> take 2 cs = [CHR 0xBB, CHR 0xBF] then strip_ws (drop 2 cs)
      else c # cs)"

text \<open>The same characters at the end of the string: the byte sequences are searched
  backwards on the reversed string.\<close>

fun strip_ws_rev :: "string \<Rightarrow> string" where
  "strip_ws_rev [] = []"
| "strip_ws_rev (c # cs) =
     (if c \<in> {CHR 0x09, CHR 0x0A, CHR 0x0B, CHR 0x0C, CHR 0x0D, CHR 0x20} then strip_ws_rev cs
      else if c = CHR 0xA0 \<and> take 1 cs = [CHR 0xC2] then strip_ws_rev (drop 1 cs)
      else if c = CHR 0x80 \<and> take 2 cs = [CHR 0x9A, CHR 0xE1] then strip_ws_rev (drop 2 cs)
      else if (c \<in> {CHR 0xA8, CHR 0xA9, CHR 0xAF} \<or> (0x80 \<le> code c \<and> code c \<le> 0x8A))
              \<and> take 2 cs = [CHR 0x80, CHR 0xE2] then strip_ws_rev (drop 2 cs)
      else if c = CHR 0x9F \<and> take 2 cs = [CHR 0x81, CHR 0xE2] then strip_ws_rev (drop 2 cs)
      else if c = CHR 0x80 \<and> take 2 cs = [CHR 0x80, CHR 0xE3] then strip_ws_rev (drop 2 cs)
      else if c = CHR 0xBF \<and> take 2 cs = [CHR 0xBB, CHR 0xEF] then strip_ws_rev (drop 2 cs)
      else c # cs)"

definition trim :: "string \<Rightarrow> string" where
  "trim s = rev (strip_ws_rev (rev (strip_ws s)))"

text \<open>An exponent part: \<^verbatim>\<open>e\<close> or \<^verbatim>\<open>E\<close>, an optional sign, at least one digit; the
  empty string is the absent exponent.\<close>

definition exponent :: "string \<Rightarrow> int option" where
  "exponent cs =
     (case cs of
        [] \<Rightarrow> Some 0
      | c # r \<Rightarrow>
          if c = CHR ''e'' \<or> c = CHR ''E'' then
            (let (neg, ds) = (case r of
                                x # r' \<Rightarrow> if x = CHR ''-'' then (True, r')
                                          else if x = CHR ''+'' then (False, r') else (False, r)
                              | [] \<Rightarrow> (False, r))
             in if ds \<noteq> [] \<and> list_all is_digit ds
                then Some (if neg then - digits_val ds else digits_val ds)
                else None)
          else None)"

definition scale10 :: "rat \<Rightarrow> int \<Rightarrow> rat" where
  "scale10 m e = (if 0 \<le> e then m * 10 ^ nat e else m / 10 ^ nat (- e))"

text \<open>StrUnsignedDecimalLiteral without \<^verbatim>\<open>Infinity\<close>: digits with an optional
  fraction, or a fraction alone, then an optional exponent.\<close>

definition unsigned_decimal :: "string \<Rightarrow> rat option" where
  "unsigned_decimal cs =
     (let ip = takeWhile is_digit cs; r1 = dropWhile is_digit cs;
          (dot, fp, r2) = (case r1 of
                             c # r \<Rightarrow> if c = CHR ''.''
                                       then (True, takeWhile is_digit r, dropWhile is_digit r)
                                       else (False, [], r1)
                           | [] \<Rightarrow> (False, [], r1))
      in if ip = [] \<and> fp = [] then None
         else (case exponent r2 of
                 None \<Rightarrow> None
               | Some e \<Rightarrow>
                   Some (scale10 (of_int (digits_val ip)
                                  + of_int (digits_val fp) / 10 ^ length fp) e)))"

definition str_unsigned :: "string \<Rightarrow> jsnum" where
  "str_unsigned cs =
     (if cs = ''Infinity'' then PosInf
      else (case unsigned_decimal cs of None \<Rightarrow> NaN | Some q \<Rightarrow> round_double q))"

definition non_decimal :: "string \<Rightarrow> jsnum option" where
  "non_decimal cs =
     (case cs of
        z # x # ds \<Rightarrow>
          if z = CHR ''0'' \<and> ds \<noteq> [] then
            (let b = (if x = CHR ''x'' \<or> x = CHR ''X'' then 16
                      else if x = CHR ''o'' \<or> x = CHR ''O'' then 8
                      else if x = CHR ''b'' \<or> x = CHR ''B'' then 2 else (0::int))
             in if b = 0 then None
                else (case radix_val b 0 ds of
                        None \<Rightarrow> Some NaN
                      | Some v \<Rightarrow> Some (round_double (of_int v))))
          else None
      | _ \<Rightarrow> None)"

text \<open>StringToNumber: the trimmed text is empty (zero), a signed decimal literal, an
  unsigned binary, octal or hexadecimal literal, or not a number. The value of a literal is
  rounded to a double.\<close>

definition string_to_number :: "string \<Rightarrow> jsnum" where
  "string_to_number s =
     (let t = trim s in
      case t of
        [] \<Rightarrow> Finite 0
      | c # r \<Rightarrow>
          if c = CHR ''-'' then neg_num (str_unsigned r)
          else if c = CHR ''+'' then str_unsigned r
          else (case non_decimal t of Some n \<Rightarrow> n | None \<Rightarrow> str_unsigned t))"

subsection \<open>Conversion of a value to a number\<close>

text \<open>
  A parsed object has no callable property. Converting it to a primitive calls the inherited
  \<^verbatim>\<open>valueOf\<close> (which returns the object itself) and then the inherited \<^verbatim>\<open>toString\<close>,
  which gives \<^verbatim>\<open>[object Object]\<close>; when the object has an own property named
  \<^verbatim>\<open>toString\<close>, that property shadows the inherited method, is not callable, and the
  conversion raises a TypeError. An array is joined with commas, converting each element to a
  string, so it raises when an element does.
\<close>

fun no_primitive :: "jsval \<Rightarrow> bool" where
  "no_primitive (JObj ms) = (''toString'' \<in> set (map fst ms))"
| "no_primitive (JArr xs) = list_ex no_primitive xs"
| "no_primitive _ = False"

text \<open>The number a value converts to when the conversion does not raise. A one-element
  array converts as the string of its element does, and the string of a number converts back
  to that number (the string of the negative zero is \<^verbatim>\<open>0\<close>); two or more elements give a
  string with a comma, which is no number.\<close>

fun number_of :: "jsval \<Rightarrow> jsnum" where
  "number_of JUndefined = NaN"
| "number_of JNull = Finite 0"
| "number_of (JBool b) = Finite (if b then 1 else 0)"
| "number_of (JNum n) = n"
| "number_of (JStr s) = string_to_number s"
| "number_of (JObj ms) = NaN"
| "number_of (JArr []) = Finite 0"
| "number_of (JArr [x]) =
     (case x of
        JUndefined \<Rightarrow> Finite 0
      | JNull \<Rightarrow> Finite 0
      | JBool b \<Rightarrow> NaN
      | JObj ms \<Rightarrow> NaN
      | JNum n \<Rightarrow> (if n = NegZero then Finite 0 else n)
      | _ \<Rightarrow> number_of x)"
| "number_of (JArr (x # y # zs)) = NaN"

definition to_number :: "jsval \<Rightarrow> error + jsnum" where
  "to_number v = (if no_primitive v then Inl TypeError else Inr (number_of v))"

text \<open>The comparison of IEEE numbers: false whenever an operand is NaN; the two zeros are
  equal.\<close>

definition unsigned_zero :: "jsnum \<Rightarrow> jsnum" where
  "unsigned_zero n = (if n = NegZero then Finite 0 else n)"

fun less_num :: "jsnum \<Rightarrow> jsnum \<Rightarrow> bool" where
  "less_num (Finite a) (Finite b) = (a < b)"
| "less_num (Finite a) PosInf = True"
| "less_num NegInf (Finite b) = True"
| "less_num NegInf PosInf = True"
| "less_num _ _ = False"

definition num_less :: "jsnum \<Rightarrow> jsnum \<Rightarrow> bool" where
  "num_less a b = less_num (unsigned_zero a) (unsigned_zero b)"

definition is_nan :: "jsnum \<Rightarrow> bool" where
  "is_nan n = (n = NaN)"

text \<open>\<^verbatim>\<open>v > c\<close>, \<^verbatim>\<open>v >= c\<close> and \<^verbatim>\<open>v < c\<close> for a numeric literal \<open>c\<close>: the left
  operand is converted to a number, which may raise.\<close>

definition js_gt :: "jsval \<Rightarrow> rat \<Rightarrow> error + bool" where
  "js_gt v c = (case to_number v of Inl e \<Rightarrow> Inl e | Inr n \<Rightarrow> Inr (num_less (Finite c) n))"

definition js_ge :: "jsval \<Rightarrow> rat \<Rightarrow> error + bool" where
  "js_ge v c =
     (case to_number v of
        Inl e \<Rightarrow> Inl e
      | Inr n \<Rightarrow> Inr (\<not> is_nan n \<and> \<not> num_less n (Finite c)))"

definition js_lt :: "jsval \<Rightarrow> rat \<Rightarrow> error + bool" where
  "js_lt v c = (case to_number v of Inl e \<Rightarrow> Inl e | Inr n \<Rightarrow> Inr (num_less n (Finite c)))"

section \<open>\<^verbatim>\<open>JSON.parse\<close>\<close>

text \<open>
  \<^verbatim>\<open>JSON.parse\<close> is a built-in of the platform. It is modelled as the JSON grammar of
  ECMA-404 in two passes: a lexer from bytes to tokens, and a pushdown recogniser over the
  tokens that builds the value. A text that is not JSON makes the built-in raise a SyntaxError;
  here the parse is \<open>None\<close>. The lexer keeps the exact value of a number literal; the value
  built from it is that value rounded to a double.
\<close>

datatype token =
    TLBrace | TRBrace | TLBrack | TRBrack | TColon | TComma
  | TTrue | TFalse | TNull
  | TNumber bool rat
  | TString string

text \<open>The UTF-8 bytes of a code point (an unpaired surrogate is written with three
  bytes).\<close>

definition utf8 :: "int \<Rightarrow> string" where
  "utf8 cp =
     (if cp < 0x80 then [char_of cp]
      else if cp < 0x800 then [char_of (0xC0 + cp div 64), char_of (0x80 + cp mod 64)]
      else if cp < 0x10000 then
        [char_of (0xE0 + cp div 4096), char_of (0x80 + (cp div 64) mod 64),
         char_of (0x80 + cp mod 64)]
      else
        [char_of (0xF0 + cp div 262144), char_of (0x80 + (cp div 4096) mod 64),
         char_of (0x80 + (cp div 64) mod 64), char_of (0x80 + cp mod 64)])"

definition hex4 :: "string \<Rightarrow> int option" where
  "hex4 cs = (if length cs < 4 then None else radix_val 16 0 (take 4 cs))"

text \<open>The low surrogate escape \<^verbatim>\<open>\uDC00\<close>..\<^verbatim>\<open>\uDFFF\<close> at the head of the text, if
  there is one.\<close>

definition low_surrogate :: "string \<Rightarrow> int option" where
  "low_surrogate cs =
     (if take 2 cs = [CHR 0x5C, CHR ''u''] then
        (case hex4 (drop 2 cs) of
           None \<Rightarrow> None
         | Some lo \<Rightarrow> if 0xDC00 \<le> lo \<and> lo \<le> 0xDFFF then Some lo else None)
      else None)"

definition simple_escape :: "char \<Rightarrow> char option" where
  "simple_escape e =
     (if e = CHR 0x22 then Some (CHR 0x22)
      else if e = CHR 0x5C then Some (CHR 0x5C)
      else if e = CHR ''/'' then Some (CHR ''/'')
      else if e = CHR ''b'' then Some (CHR 0x08)
      else if e = CHR ''f'' then Some (CHR 0x0C)
      else if e = CHR ''n'' then Some (CHR 0x0A)
      else if e = CHR ''r'' then Some (CHR 0x0D)
      else if e = CHR ''t'' then Some (CHR 0x09)
      else None)"

text \<open>The escape \<^verbatim>\<open>\uXXXX\<close>, read after its \<^verbatim>\<open>u\<close>: the bytes it denotes and the
  number of characters it takes, four, or ten when the escape of a high surrogate is followed
  by the escape of a low one.\<close>

definition escape_single :: "int \<Rightarrow> string \<times> nat" where
  "escape_single hi = (utf8 hi, 4)"

definition escape_pair :: "int \<Rightarrow> int \<Rightarrow> string \<times> nat" where
  "escape_pair hi lo = (utf8 (0x10000 + (hi - 0xD800) * 1024 + (lo - 0xDC00)), 10)"

definition escape_code :: "string \<Rightarrow> int \<Rightarrow> string \<times> nat" where
  "escape_code r hi =
     (if 0xD800 \<le> hi \<and> hi \<le> 0xDBFF then
        (case low_surrogate (drop 4 r) of
           None \<Rightarrow> escape_single hi
         | Some lo \<Rightarrow> escape_pair hi lo)
      else escape_single hi)"

definition unicode_escape :: "string \<Rightarrow> (string \<times> nat) option" where
  "unicode_escape r = map_option (escape_code r) (hex4 r)"

text \<open>The characters of a string literal after its opening quote: the decoded content
  and the text after the closing quote. A control character below U+0020 must be escaped.\<close>

fun lex_string :: "string \<Rightarrow> string \<Rightarrow> (string \<times> string) option" where
  "lex_string acc [] = None"
| "lex_string acc (c # cs) =
     (if c = CHR 0x22 then Some (acc, cs)
      else if c = CHR 0x5C then
        (case cs of
           [] \<Rightarrow> None
         | e # r \<Rightarrow>
             if e = CHR ''u'' then
               (case unicode_escape r of
                  None \<Rightarrow> None
                | Some (bs, n) \<Rightarrow> lex_string (acc @ bs) (drop n r))
             else
               (case simple_escape e of
                  None \<Rightarrow> None
                | Some x \<Rightarrow> lex_string (acc @ [x]) r))
      else if code c < 0x20 then None
      else lex_string (acc @ [c]) cs)"

text \<open>A number literal whose first character is \<open>c\<close> (a minus sign or a digit): an
  integer part without a leading zero, an optional fraction with at least one digit, an
  optional exponent with at least one digit. The result is the sign, the exact value without
  the sign, and the text that follows.\<close>

definition lex_fraction :: "string \<Rightarrow> (string \<times> string) option" where
  "lex_fraction cs =
     (case cs of
        c # r \<Rightarrow>
          if c = CHR ''.'' then
            (if takeWhile is_digit r = [] then None
             else Some (takeWhile is_digit r, dropWhile is_digit r))
          else Some ([], cs)
      | [] \<Rightarrow> Some ([], cs))"

definition lex_exponent :: "string \<Rightarrow> (int \<times> string) option" where
  "lex_exponent cs =
     (case cs of
        c # r \<Rightarrow>
          if c = CHR ''e'' \<or> c = CHR ''E'' then
            (let (neg, r') = (case r of
                                x # t \<Rightarrow> if x = CHR ''-'' then (True, t)
                                         else if x = CHR ''+'' then (False, t) else (False, r)
                              | [] \<Rightarrow> (False, r));
                 ds = takeWhile is_digit r'
             in if ds = [] then None
                else Some (if neg then - digits_val ds else digits_val ds,
                           dropWhile is_digit r'))
          else Some (0, cs)
      | [] \<Rightarrow> Some (0, cs))"

definition lex_unsigned :: "char \<Rightarrow> string \<Rightarrow> (rat \<times> string) option" where
  "lex_unsigned d cs =
     (if \<not> is_digit d then None
      else
        (let ip = (if d = CHR ''0'' then [d] else d # takeWhile is_digit cs);
             r1 = (if d = CHR ''0'' then cs else dropWhile is_digit cs)
         in case lex_fraction r1 of
              None \<Rightarrow> None
            | Some (fp, r2) \<Rightarrow>
                (case lex_exponent r2 of
                   None \<Rightarrow> None
                 | Some (e, r3) \<Rightarrow>
                     Some (scale10 (of_int (digits_val ip)
                                    + of_int (digits_val fp) / 10 ^ length fp) e, r3))))"

definition lex_number :: "char \<Rightarrow> string \<Rightarrow> ((bool \<times> rat) \<times> string) option" where
  "lex_number c cs =
     (if c = CHR ''-'' then
        (case cs of
           [] \<Rightarrow> None
         | d # r \<Rightarrow> (case lex_unsigned d r of
                       None \<Rightarrow> None
                     | Some (q, r') \<Rightarrow> Some ((True, q), r')))
      else map_option (\<lambda>(q, r'). ((False, q), r')) (lex_unsigned c cs))"

lemma lex_string_length: "lex_string acc cs = Some (s, r) \<Longrightarrow> length r \<le> length cs"
proof (induction acc cs rule: lex_string.induct)
  case (1 acc)
  then show ?case by simp
next
  case (2 acc c cs)
  show ?case
  proof (cases "c = CHR 0x22")
    case True
    with 2 show ?thesis by simp
  next
    case nq: False
    show ?thesis
    proof (cases "c = CHR 0x5C")
      case False
      with nq 2 show ?thesis by (simp split: if_splits add: le_SucI)
    next
      case bs: True
      show ?thesis
      proof (cases cs)
        case Nil
        with nq bs 2 show ?thesis by simp
      next
        case (Cons e r')
        show ?thesis
        proof (cases "e = CHR ''u''")
          case False
          with nq bs Cons 2 show ?thesis
            by (auto split: option.splits simp: le_SucI)
        next
          case u: True
          with nq bs Cons 2 obtain b n where e: "unicode_escape r' = Some (b, n)"
            and l: "lex_string (acc @ b) (drop n r') = Some (s, r)"
            by (auto split: option.splits)
          from "2.IH"(1) [OF nq bs Cons u e refl l] have "length r \<le> length (drop n r')" .
          with Cons show ?thesis by simp
        qed
      qed
    qed
  qed
qed

lemma lex_fraction_length: "lex_fraction cs = Some (fp, r) \<Longrightarrow> length r \<le> length cs"
  by (auto simp: lex_fraction_def le_SucI length_dropWhile_le
           split: list.splits if_splits)

lemma lex_exponent_length: "lex_exponent cs = Some (e, r) \<Longrightarrow> length r \<le> length cs"
  by (auto simp: lex_exponent_def Let_def le_SucI length_dropWhile_le
           split: list.splits if_splits
           intro: le_trans [OF length_dropWhile_le])

lemma lex_unsigned_length: "lex_unsigned d cs = Some (q, r) \<Longrightarrow> length r \<le> length cs"
proof -
  assume a: "lex_unsigned d cs = Some (q, r)"
  define r1 where "r1 = (if d = CHR ''0'' then cs else dropWhile is_digit cs)"
  have l1: "length r1 \<le> length cs"
    by (simp add: r1_def length_dropWhile_le)
  from a obtain fp r2 e where f: "lex_fraction r1 = Some (fp, r2)"
    and x: "lex_exponent r2 = Some (e, r)"
    by (auto simp: lex_unsigned_def Let_def r1_def split: if_splits option.splits)
  from lex_fraction_length [OF f] lex_exponent_length [OF x] l1 show ?thesis
    by simp
qed

lemma lex_number_length: "lex_number c cs = Some (q, r) \<Longrightarrow> length r \<le> length cs"
  by (auto simp: lex_number_def le_SucI split: if_splits list.splits option.splits
           dest!: lex_unsigned_length)

text \<open>The lexer. White space between tokens is space, tab, line feed and carriage
  return.\<close>

function lex :: "string \<Rightarrow> token list option" where
  "lex [] = Some []"
| "lex (c # cs) =
     (if c \<in> {CHR 0x20, CHR 0x09, CHR 0x0A, CHR 0x0D} then lex cs
      else if c = CHR ''{'' then map_option ((#) TLBrace) (lex cs)
      else if c = CHR ''}'' then map_option ((#) TRBrace) (lex cs)
      else if c = CHR ''['' then map_option ((#) TLBrack) (lex cs)
      else if c = CHR '']'' then map_option ((#) TRBrack) (lex cs)
      else if c = CHR '':'' then map_option ((#) TColon) (lex cs)
      else if c = CHR '','' then map_option ((#) TComma) (lex cs)
      else if c = CHR ''t'' \<and> take 3 cs = ''rue'' then map_option ((#) TTrue) (lex (drop 3 cs))
      else if c = CHR ''f'' \<and> take 4 cs = ''alse''
        then map_option ((#) TFalse) (lex (drop 4 cs))
      else if c = CHR ''n'' \<and> take 3 cs = ''ull'' then map_option ((#) TNull) (lex (drop 3 cs))
      else if c = CHR 0x22 then
        (case lex_string [] cs of
           None \<Rightarrow> None
         | Some (s, r) \<Rightarrow> map_option ((#) (TString s)) (lex r))
      else
        (case lex_number c cs of
           None \<Rightarrow> None
         | Some ((neg, q), r) \<Rightarrow> map_option ((#) (TNumber neg q)) (lex r)))"
  by pat_completeness auto
termination
proof (relation "measure length")
  show "wf (measure length)" by simp
qed (auto dest: lex_string_length lex_number_length)

subsection \<open>The grammar\<close>

text \<open>
  The recogniser keeps the containers that are still open on a stack. The innermost one is
  in the state, with the members read so far; each outer one waits for the value being read
  inside it.
\<close>

datatype ctx = CArr "jsval list" | CObj "(string \<times> jsval) list" string

datatype pstate =
    SValue
  | SArrFirst
  | SArrNext "jsval list"
  | SObjFirst
  | SObjKey "(string \<times> jsval) list"
  | SObjColon "(string \<times> jsval) list" string
  | SObjNext "(string \<times> jsval) list"
  | SDone jsval

text \<open>A value is complete: it is the result, or the next member of the container that
  waited for it.\<close>

fun complete :: "jsval \<Rightarrow> ctx list \<Rightarrow> pstate \<times> ctx list" where
  "complete v [] = (SDone v, [])"
| "complete v (CArr vs # st) = (SArrNext (vs @ [v]), st)"
| "complete v (CObj ms k # st) = (SObjNext (ms @ [(k, v)]), st)"

fun start_value :: "token \<Rightarrow> ctx list \<Rightarrow> (pstate \<times> ctx list) option" where
  "start_value TLBrace st = Some (SObjFirst, st)"
| "start_value TLBrack st = Some (SArrFirst, st)"
| "start_value TTrue st = Some (complete (JBool True) st)"
| "start_value TFalse st = Some (complete (JBool False) st)"
| "start_value TNull st = Some (complete JNull st)"
| "start_value (TNumber neg q) st = Some (complete (JNum (signed neg (round_double q))) st)"
| "start_value (TString s) st = Some (complete (JStr s) st)"
| "start_value _ st = None"

fun step :: "pstate \<Rightarrow> ctx list \<Rightarrow> token \<Rightarrow> (pstate \<times> ctx list) option" where
  "step SValue st t = start_value t st"
| "step SArrFirst st t =
     (if t = TRBrack then Some (complete (JArr []) st) else start_value t (CArr [] # st))"
| "step (SArrNext vs) st t =
     (if t = TComma then Some (SValue, CArr vs # st)
      else if t = TRBrack then Some (complete (JArr vs) st)
      else None)"
| "step SObjFirst st t =
     (case t of
        TRBrace \<Rightarrow> Some (complete (JObj []) st)
      | TString k \<Rightarrow> Some (SObjColon [] k, st)
      | _ \<Rightarrow> None)"
| "step (SObjKey ms) st t =
     (case t of TString k \<Rightarrow> Some (SObjColon ms k, st) | _ \<Rightarrow> None)"
| "step (SObjColon ms k) st t =
     (if t = TColon then Some (SValue, CObj ms k # st) else None)"
| "step (SObjNext ms) st t =
     (if t = TComma then Some (SObjKey ms, st)
      else if t = TRBrace then Some (complete (JObj ms) st)
      else None)"
| "step (SDone v) st t = None"

primrec run :: "token list \<Rightarrow> pstate \<Rightarrow> ctx list \<Rightarrow> jsval option" where
  "run [] s st = (case s of SDone v \<Rightarrow> Some v | _ \<Rightarrow> None)"
| "run (t # ts) s st =
     (case step s st t of
        None \<Rightarrow> None
      | Some (s', st') \<Rightarrow> run ts s' st')"

definition JSON_parse :: "string \<Rightarrow> jsval option" where
  "JSON_parse text = (case lex text of None \<Rightarrow> None | Some ts \<Rightarrow> run ts SValue [])"

section \<open>The AI service\<close>

text \<open>
  Modelled from the spec: \<^verbatim>\<open>getAIService\<close> and the \<^verbatim>\<open>reanswerQuestion\<close> method of the
  service it returns are imported from \<^verbatim>\<open>./index\<close>, which is not part of the sources. The
  spec describes the single capability "ask the configured AI provider a natural-language
  question about an image and get back free text". A reply carries the two text fields the
  pipeline reads, each possibly missing; a call may raise instead of replying, and so may
  \<^verbatim>\<open>getAIService\<close>. The reply to a request may depend on the requests made before it;
  whether the service can be obtained is the same throughout one run of the pipeline.

  The four prompts are fixed texts, apart from the enhancement prompt, which quotes the two
  fields of the analysis reply; a prompt is represented by its name and the quoted fields.
\<close>

record ai_reply =
  answerText :: "string option"
  analysis :: "string option"

datatype prompt =
    ClarityPrompt
  | AnalyzePrompt
  | EnhancementPrompt "string option" "string option"
  | TextExtractionPrompt

record request =
  req_prompt :: prompt
  req_language :: string
  req_subject :: jsval
  req_image :: "string option"

type_synonym ai_service = "request list \<Rightarrow> request \<Rightarrow> error + ai_reply"

type_synonym ai_env = "error + ai_service"

text \<open>One call of the service: the reply (or the error raised) and the trace of requests
  extended by this one.\<close>

definition reanswerQuestion ::
  "ai_service \<Rightarrow> request \<Rightarrow> request list \<Rightarrow> (error + ai_reply) \<times> request list" where
  "reanswerQuestion aiService rq tr = (aiService tr rq, tr @ [rq])"

section \<open>String helpers of the pipeline\<close>

text \<open>\<^verbatim>\<open>s.startsWith('data:')\<close>.\<close>

definition starts_with_data :: "string \<Rightarrow> bool" where
  "starts_with_data s = (take 5 s = ''data:'')"

text \<open>The image argument of a service call:
  \<^verbatim>\<open>imageBase64.startsWith('data:') ? imageBase64 : `data:${mimeType};base64,${imageBase64}`\<close>.\<close>

definition data_url :: "string \<Rightarrow> string \<Rightarrow> string" where
  "data_url mimeType imageBase64 =
     (if starts_with_data imageBase64 then imageBase64
      else ''data:'' @ mimeType @ '';base64,'' @ imageBase64)"

text \<open>\<^verbatim>\<open>s.split(',')[1]\<close>: the text between the first and the second comma;
  \<^verbatim>\<open>undefined\<close> (here \<open>None\<close>) when the string has no comma.\<close>

definition split_comma_1 :: "string \<Rightarrow> string option" where
  "split_comma_1 s =
     (case dropWhile (\<lambda>c. c \<noteq> CHR '','') s of
        [] \<Rightarrow> None
      | c # r \<Rightarrow> Some (takeWhile (\<lambda>c. c \<noteq> CHR '','') r))"

text \<open>\<^verbatim>\<open>text.match(/\{[\s\S]*\}/)\<close>: the match starts at the first opening brace; the
  starred class is greedy and matches any character, so the match ends at the last closing
  brace after it. There is no match when no closing brace follows the first opening one.\<close>

definition match_json :: "string \<Rightarrow> string option" where
  "match_json text =
     (case dropWhile (\<lambda>c. c \<noteq> CHR ''{'') text of
        [] \<Rightarrow> None
      | c # r \<Rightarrow>
          if CHR ''}'' \<in> set r
          then Some (c # rev (dropWhile (\<lambda>c. c \<noteq> CHR ''}'') (rev r)))
          else None)"

text \<open>\<^verbatim>\<open>result.answerText || result.analysis || ''\<close>: the first of the two fields that is
  a non-empty string.\<close>

definition reply_text :: "ai_reply \<Rightarrow> string" where
  "reply_text r =
     (case answerText r of
        Some a \<Rightarrow> if a \<noteq> [] then a else (case analysis r of Some b \<Rightarrow> b | None \<Rightarrow> [])
      | None \<Rightarrow> (case analysis r of Some b \<Rightarrow> b | None \<Rightarrow> []))"

text \<open>A property read \<^verbatim>\<open>v.k\<close> for a key \<open>k\<close> that is no built-in property name: it
  raises on \<^verbatim>\<open>null\<close> and \<^verbatim>\<open>undefined\<close> and is \<^verbatim>\<open>undefined\<close> on the other
  values that are not objects.\<close>

fun read_prop :: "jsval \<Rightarrow> string \<Rightarrow> error + jsval" where
  "read_prop (JObj ms) k = Inr (get_prop ms k)"
| "read_prop JNull k = Inl TypeError"
| "read_prop JUndefined k = Inl TypeError"
| "read_prop _ k = Inr JUndefined"

section \<open>detectImageClarity\<close>

record ClarityCheckResult =
  isBlurry :: jsval
  clarityScore :: jsval
  recommendation :: jsval

text \<open>The three recommendation texts of the source, as UTF-8 bytes: the default of a
  parsed reply without the field, the text returned when the reply holds no JSON, and the
  text returned when the detection failed.\<close>

definition rec_done :: string where
  "rec_done = [CHR 0xE6, CHR 0xA3, CHR 0x80, CHR 0xE6, CHR 0xB5, CHR 0x8B, CHR 0xE5, CHR 0xAE,
     CHR 0x8C, CHR 0xE6, CHR 0x88, CHR 0x90]"

definition rec_good :: string where
  "rec_good = [CHR 0xE6, CHR 0xA3, CHR 0x80, CHR 0xE6, CHR 0xB5, CHR 0x8B, CHR 0xE5, CHR 0xAE,
     CHR 0x8C, CHR 0xE6, CHR 0x88, CHR 0x90, CHR 0xEF, CHR 0xBC, CHR 0x8C, CHR 0xE5, CHR 0x9B,
     CHR 0xBE, CHR 0xE7, CHR 0x89, CHR 0x87, CHR 0xE8, CHR 0xB4, CHR 0xA8, CHR 0xE9, CHR 0x87,
     CHR 0x8F, CHR 0xE8, CHR 0x89, CHR 0xAF, CHR 0xE5, CHR 0xA5, CHR 0xBD]"

definition rec_failed :: string where
  "rec_failed = [CHR 0xE6, CHR 0xA3, CHR 0x80, CHR 0xE6, CHR 0xB5, CHR 0x8B, CHR 0xE5, CHR 0xA4,
     CHR 0xB1, CHR 0xE8, CHR 0xB4, CHR 0xA5, CHR 0xEF, CHR 0xBC, CHR 0x8C, CHR 0xE4, CHR 0xBD,
     CHR 0xBF, CHR 0xE7, CHR 0x94, CHR 0xA8, CHR 0xE5, CHR 0x8E, CHR 0x9F, CHR 0xE5, CHR 0x9B,
     CHR 0xBE]"

definition clarity_default :: "string \<Rightarrow> ClarityCheckResult" where
  "clarity_default txt =
     \<lparr>isBlurry = JBool False, clarityScore = JNum (Finite 80), recommendation = JStr txt\<rparr>"

definition clarity_request :: "string \<Rightarrow> string \<Rightarrow> request" where
  "clarity_request imageBase64 mimeType =
     \<lparr>req_prompt = ClarityPrompt, req_language = ''zh'', req_subject = JNull,
      req_image = Some (data_url mimeType imageBase64)\<rparr>"

text \<open>The object built from the parsed reply (lines 359 to 363).\<close>

definition clarity_of_parsed :: "jsval \<Rightarrow> error + ClarityCheckResult" where
  "clarity_of_parsed parsed =
     (case read_prop parsed ''isBlurry'' of
        Inl e \<Rightarrow> Inl e
      | Inr b \<Rightarrow>
          (case read_prop parsed ''clarityScore'' of
             Inl e \<Rightarrow> Inl e
           | Inr sc \<Rightarrow>
               (case read_prop parsed ''recommendation'' of
                  Inl e \<Rightarrow> Inl e
                | Inr rc \<Rightarrow>
                    Inr \<lparr>isBlurry = coalesce b (JBool False),
                         clarityScore = coalesce sc (JNum (Finite 80)),
                         recommendation = coalesce rc (JStr rec_done)\<rparr>)))"

text \<open>What the function does with the text of a reply (lines 353 to 371); a failing
  \<^verbatim>\<open>JSON.parse\<close> raises.\<close>

definition clarity_of_text :: "string \<Rightarrow> error + ClarityCheckResult" where
  "clarity_of_text text =
     (case match_json text of
        Some m \<Rightarrow>
          (case JSON_parse m of
             None \<Rightarrow> Inl SyntaxError
           | Some parsed \<Rightarrow> clarity_of_parsed parsed)
      | None \<Rightarrow> Inr (clarity_default rec_good))"

text \<open>The body of the \<^verbatim>\<open>try\<close> block.\<close>

definition detect_try ::
  "ai_env \<Rightarrow> string \<Rightarrow> string \<Rightarrow> request list
     \<Rightarrow> (error + ClarityCheckResult) \<times> request list" where
  "detect_try env imageBase64 mimeType tr =
     (case env of
        Inl e \<Rightarrow> (Inl e, tr)
      | Inr aiService \<Rightarrow>
          (case reanswerQuestion aiService (clarity_request imageBase64 mimeType) tr of
             (Inl e, tr') \<Rightarrow> (Inl e, tr')
           | (Inr result, tr') \<Rightarrow> (clarity_of_text (reply_text result), tr')))"

text \<open>The function: the \<^verbatim>\<open>catch\<close> block replaces whatever the body raised by the
  default of a failed detection.\<close>

definition detectImageClarity ::
  "ai_env \<Rightarrow> string \<Rightarrow> string \<Rightarrow> request list
     \<Rightarrow> (error + ClarityCheckResult) \<times> request list" where
  "detectImageClarity env imageBase64 mimeType tr =
     (case detect_try env imageBase64 mimeType tr of
        (Inl e, tr') \<Rightarrow> (Inr (clarity_default rec_failed), tr')
      | (Inr r, tr') \<Rightarrow> (Inr r, tr'))"

section \<open>enhanceImageClarity\<close>

record ImageEnhancementResult =
  enhancedBase64 :: "string option"
  originalBase64 :: "string option"
  improvementScore :: jsval
  success :: bool

text \<open>Lines 395 to 397: the text after the prefix of a data URL, or the input itself.\<close>

definition original_of :: "string \<Rightarrow> string option" where
  "original_of imageBase64 =
     (if starts_with_data imageBase64 then split_comma_1 imageBase64 else Some imageBase64)"

definition analyze_request :: "string \<Rightarrow> string \<Rightarrow> request" where
  "analyze_request imageBase64 mimeType =
     \<lparr>req_prompt = AnalyzePrompt, req_language = ''zh'', req_subject = JNull,
      req_image = Some (data_url mimeType imageBase64)\<rparr>"

definition enhancement_request :: "ai_reply \<Rightarrow> request" where
  "enhancement_request analysisResult =
     \<lparr>req_prompt = EnhancementPrompt (answerText analysisResult) (analysis analysisResult),
      req_language = ''zh'', req_subject = JUndefined, req_image = None\<rparr>"

definition enhancement_defaults :: "(string \<times> jsval) list" where
  "enhancement_defaults =
     [(''canEnhance'', JBool False), (''suggestedText'', JStr []),
      (''needsRetake'', JBool False), (''confidence'', JNum (Finite 0))]"

text \<open>The object spread \<^verbatim>\<open>{ ...enhancement, ...parsed }\<close>: the own properties of the
  parsed value come after the defaults, so they win. Only an object has properties with the
  names the function reads.\<close>

fun spread :: "(string \<times> jsval) list \<Rightarrow> jsval \<Rightarrow> (string \<times> jsval) list" where
  "spread ds (JObj ms) = ds @ ms"
| "spread ds _ = ds"

text \<open>Lines 444 to 459: the judgment read from the text of the second reply. A failing
  parse is caught where it happens and leaves the defaults.\<close>

definition enhancement_of_text :: "string \<Rightarrow> (string \<times> jsval) list" where
  "enhancement_of_text text =
     (case match_json text of
        Some m \<Rightarrow>
          (case JSON_parse m of
             None \<Rightarrow> enhancement_defaults
           | Some parsed \<Rightarrow> spread enhancement_defaults parsed)
      | None \<Rightarrow> enhancement_defaults)"

definition enhance_try ::
  "ai_env \<Rightarrow> string \<Rightarrow> string \<Rightarrow> request list
     \<Rightarrow> (error + ImageEnhancementResult) \<times> request list" where
  "enhance_try env imageBase64 mimeType tr =
     (case env of
        Inl e \<Rightarrow> (Inl e, tr)
      | Inr aiService \<Rightarrow>
          (case reanswerQuestion aiService (analyze_request imageBase64 mimeType) tr of
             (Inl e, tr1) \<Rightarrow> (Inl e, tr1)
           | (Inr analysisResult, tr1) \<Rightarrow>
               (case reanswerQuestion aiService (enhancement_request analysisResult) tr1 of
                  (Inl e, tr2) \<Rightarrow> (Inl e, tr2)
                | (Inr enhancementResult, tr2) \<Rightarrow>
                    (let enhancement = enhancement_of_text (reply_text enhancementResult);
                         confidence = get_prop enhancement ''confidence''
                     in case js_gt confidence 50 of
                          Inl e \<Rightarrow> (Inl e, tr2)
                        | Inr b \<Rightarrow>
                            (Inr \<lparr>enhancedBase64 = original_of imageBase64,
                                  originalBase64 = original_of imageBase64,
                                  improvementScore = confidence,
                                  success = b\<rparr>, tr2)))))"

definition enhancement_failed :: "string \<Rightarrow> ImageEnhancementResult" where
  "enhancement_failed imageBase64 =
     \<lparr>enhancedBase64 = original_of imageBase64, originalBase64 = original_of imageBase64,
      improvementScore = JNum (Finite 0), success = False\<rparr>"

definition enhanceImageClarity ::
  "ai_env \<Rightarrow> string \<Rightarrow> string \<Rightarrow> request list
     \<Rightarrow> (error + ImageEnhancementResult) \<times> request list" where
  "enhanceImageClarity env imageBase64 mimeType tr =
     (case enhance_try env imageBase64 mimeType tr of
        (Inl e, tr') \<Rightarrow> (Inr (enhancement_failed imageBase64), tr')
      | (Inr r, tr') \<Rightarrow> (Inr r, tr'))"

section \<open>processImageWithClarityCheck\<close>

record ProcessOutcome =
  finalImage :: "string option"
  clarityInfo :: ClarityCheckResult
  enhancementInfo :: "ImageEnhancementResult option"
  suggestedText :: "string option"

definition extraction_request :: "string \<Rightarrow> string \<Rightarrow> request" where
  "extraction_request imageBase64 mimeType =
     \<lparr>req_prompt = TextExtractionPrompt, req_language = ''zh'', req_subject = JNull,
      req_image = Some (data_url mimeType imageBase64)\<rparr>"

text \<open>Line 507, \<^verbatim>\<open>!clarityInfo.isBlurry && clarityInfo.clarityScore >= 70\<close>: the
  comparison is evaluated only when the first operand holds, and it stands outside every
  \<^verbatim>\<open>try\<close> block.\<close>

definition clarity_good :: "ClarityCheckResult \<Rightarrow> error + bool" where
  "clarity_good ci =
     (if \<not> truthy (isBlurry ci) then js_ge (clarityScore ci) 70 else Inr False)"

text \<open>Lines 520 to 532: the third call, with its own \<^verbatim>\<open>try\<close> block;
  \<^verbatim>\<open>textExtraction.answerText || ''\<close>.\<close>

definition extract_text ::
  "ai_env \<Rightarrow> string \<Rightarrow> string \<Rightarrow> request list \<Rightarrow> string \<times> request list" where
  "extract_text env imageBase64 mimeType tr =
     (case env of
        Inl e \<Rightarrow> ([], tr)
      | Inr aiService \<Rightarrow>
          (case reanswerQuestion aiService (extraction_request imageBase64 mimeType) tr of
             (Inl e, tr') \<Rightarrow> ([], tr')
           | (Inr textExtraction, tr') \<Rightarrow>
               (case answerText textExtraction of Some a \<Rightarrow> a | None \<Rightarrow> [], tr')))"

definition processImageWithClarityCheck ::
  "ai_env \<Rightarrow> string \<Rightarrow> string \<Rightarrow> request list
     \<Rightarrow> (error + ProcessOutcome) \<times> request list" where
  "processImageWithClarityCheck env imageBase64 mimeType tr =
     (case detectImageClarity env imageBase64 mimeType tr of
        (Inl e, tr1) \<Rightarrow> (Inl e, tr1)
      | (Inr ci, tr1) \<Rightarrow>
          (case clarity_good ci of
             Inl e \<Rightarrow> (Inl e, tr1)
           | Inr True \<Rightarrow>
               (Inr \<lparr>finalImage = Some imageBase64, clarityInfo = ci,
                     enhancementInfo = None, suggestedText = None\<rparr>, tr1)
           | Inr False \<Rightarrow>
               (case enhanceImageClarity env imageBase64 mimeType tr1 of
                  (Inl e, tr2) \<Rightarrow> (Inl e, tr2)
                | (Inr ei, tr2) \<Rightarrow>
                    (case extract_text env imageBase64 mimeType tr2 of
                       (txt, tr3) \<Rightarrow>
                         (Inr \<lparr>finalImage = (if success ei then enhancedBase64 ei
                                              else Some imageBase64),
                               clarityInfo = ci, enhancementInfo = Some ei,
                               suggestedText = Some txt\<rparr>, tr3)))))"

section \<open>The route \<^verbatim>\<open>POST /api/image-clarity\<close>\<close>

text \<open>
  The body of a request is the value \<^verbatim>\<open>req.json()\<close> returns (or the error it raises).
  The handler destructures four properties from it. The image, \<^verbatim>\<open>checkOnly\<close> and
  \<^verbatim>\<open>autoEnhance\<close> are kept as run-time values, \<^verbatim>\<open>undefined\<close> when the property is
  missing; \<^verbatim>\<open>mimeType\<close> is a string when present, as the handler's comment documents it,
  because the handler pastes it into the data URLs it builds. A body that is \<^verbatim>\<open>null\<close>
  makes the destructuring raise, like a body that cannot be read; a body that is a number, a
  string, a truth value or an array has none of the four properties.

  Modelled from the spec: \<^verbatim>\<open>badRequest\<close> and \<^verbatim>\<open>internalError\<close> come from
  \<^verbatim>\<open>@/lib/api-errors\<close>, which is not part of the sources; each is a kind of response that
  carries its message.
\<close>

record request_body =
  body_imageBase64 :: jsval
  body_mimeType :: "string option"
  body_checkOnly :: jsval
  body_autoEnhance :: jsval

datatype response =
    Json nat jsval
  | BadRequest string
  | InternalError string

text \<open>The line terminators, which the dot of a regular expression does not match: LF, CR,
  U+2028 and U+2029.\<close>

fun has_line_terminator :: "string \<Rightarrow> bool" where
  "has_line_terminator [] = False"
| "has_line_terminator (c # cs) =
     (c = CHR 0x0A \<or> c = CHR 0x0D
      \<or> (c = CHR 0xE2 \<and> (take 2 cs = [CHR 0x80, CHR 0xA8] \<or> take 2 cs = [CHR 0x80, CHR 0xA9]))
      \<or> has_line_terminator cs)"

text \<open>\<^verbatim>\<open>s.match(/^data:([^;]+);base64,(.+)$/)\<close>: the two groups of the match. The first
  group cannot contain a semicolon and must be followed by one, so it is the text up to the
  first semicolon.\<close>

definition match_data_url :: "string \<Rightarrow> (string \<times> string) option" where
  "match_data_url s =
     (if take 5 s = ''data:'' then
        (let mime = takeWhile (\<lambda>c. c \<noteq> CHR '';'') (drop 5 s);
             rest = dropWhile (\<lambda>c. c \<noteq> CHR '';'') (drop 5 s);
             payload = drop 8 rest
         in if mime \<noteq> [] \<and> take 8 rest = '';base64,'' \<and> payload \<noteq> []
               \<and> \<not> has_line_terminator payload
            then Some (mime, payload) else None)
      else None)"

definition clarity_json :: "ClarityCheckResult \<Rightarrow> jsval" where
  "clarity_json ci =
     JObj [(''isBlurry'', isBlurry ci), (''clarityScore'', clarityScore ci),
           (''recommendation'', recommendation ci)]"

text \<open>Lines 66 to 87: the response object of the full pipeline. Reading
  \<^verbatim>\<open>startsWith\<close> from a final image that is \<^verbatim>\<open>undefined\<close> raises.\<close>

definition build_response :: "string \<Rightarrow> string \<Rightarrow> ProcessOutcome \<Rightarrow> error + jsval" where
  "build_response mimeType imageBase64 processResult =
     (case finalImage processResult of
        None \<Rightarrow> Inl TypeError
      | Some fin \<Rightarrow>
          Inr (JObj
            ([(''clarity'', clarity_json (clarityInfo processResult)),
              (''image'', JObj
                 [(''original'', JStr (''data:'' @ mimeType @ '';base64,'' @ imageBase64)),
                  (''final'', JStr (if starts_with_data fin then fin
                                    else ''data:'' @ mimeType @ '';base64,'' @ fin))])]
             @ (case enhancementInfo processResult of
                  None \<Rightarrow> []
                | Some ei \<Rightarrow>
                    [(''enhancement'', JObj [(''success'', JBool (success ei)),
                                              (''improvementScore'', improvementScore ei)])])
             @ (case suggestedText processResult of
                  None \<Rightarrow> []
                | Some txt \<Rightarrow> if txt \<noteq> [] then [(''suggestedText'', JStr txt)] else []))))"

text \<open>The body of the handler's \<^verbatim>\<open>try\<close> block. The binding of \<^verbatim>\<open>autoEnhance\<close> on
  line 37 is the only place where the flag is named.\<close>

definition post_try ::
  "error + request_body \<Rightarrow> ai_env \<Rightarrow> request list
     \<Rightarrow> (error + response) \<times> request list" where
  "post_try body env tr =
     (case body of
        Inl e \<Rightarrow> (Inl e, tr)
      | Inr b \<Rightarrow>
          (let imageBase64 = body_imageBase64 b;
               mimeType = (case body_mimeType b of None \<Rightarrow> ''image/jpeg'' | Some m \<Rightarrow> m);
               checkOnly = (if body_checkOnly b = JUndefined then JBool False
                            else body_checkOnly b);
               autoEnhance = (if body_autoEnhance b = JUndefined then JBool False
                              else body_autoEnhance b)
           in if \<not> truthy imageBase64 then (Inr (BadRequest ''Missing image data''), tr)
              else
                (case imageBase64 of
                   JStr s \<Rightarrow>
                     (let (mimeType', imageBase64') =
                            (if starts_with_data s then
                               (case match_data_url s of
                                  Some (m, p) \<Rightarrow> (m, p)
                                | None \<Rightarrow> (mimeType, s))
                             else (mimeType, s))
                      in if truthy checkOnly then
                           (case detectImageClarity env imageBase64' mimeType' tr of
                              (Inl e, tr') \<Rightarrow> (Inl e, tr')
                            | (Inr clarityResult, tr') \<Rightarrow>
                                (Inr (Json 200 (clarity_json clarityResult)), tr'))
                         else
                           (case processImageWithClarityCheck env imageBase64' mimeType' tr of
                              (Inl e, tr') \<Rightarrow> (Inl e, tr')
                            | (Inr processResult, tr') \<Rightarrow>
                                (case build_response mimeType' imageBase64' processResult of
                                   Inl e \<Rightarrow> (Inl e, tr')
                                 | Inr r \<Rightarrow> (Inr (Json 200 r), tr'))))
                 | _ \<Rightarrow> (Inl TypeError, tr))))"

text \<open>The handler: without a session the answer is 401; whatever the \<^verbatim>\<open>try\<close> block
  raises becomes the internal error.\<close>

definition POST ::
  "'s option \<Rightarrow> error + request_body \<Rightarrow> ai_env \<Rightarrow> request list
     \<Rightarrow> response \<times> request list" where
  "POST session body env tr =
     (case session of
        None \<Rightarrow> (Json 401 (JObj [(''message'', JStr ''Unauthorized'')]), tr)
      | Some u \<Rightarrow>
          (case post_try body env tr of
             (Inl e, tr') \<Rightarrow> (InternalError ''Failed to process image clarity'', tr')
           | (Inr r, tr') \<Rightarrow> (r, tr')))"

section \<open>An invariant of the recogniser\<close>

text \<open>The outermost container being read is an object.\<close>

definition bottom_object :: "ctx list \<Rightarrow> bool" where
  "bottom_object st = (st \<noteq> [] \<and> (case last st of CObj ms k \<Rightarrow> True | CArr vs \<Rightarrow> False))"

fun object_state :: "pstate \<Rightarrow> bool" where
  "object_state SObjFirst = True"
| "object_state (SObjKey ms) = True"
| "object_state (SObjColon ms k) = True"
| "object_state (SObjNext ms) = True"
| "object_state (SDone (JObj ms)) = True"
| "object_state _ = False"

fun done_state :: "pstate \<Rightarrow> bool" where
  "done_state (SDone v) = True"
| "done_state _ = False"

definition outer_object :: "pstate \<Rightarrow> ctx list \<Rightarrow> bool" where
  "outer_object s st = (if st = [] then object_state s else bottom_object st \<and> \<not> done_state s)"

section \<open>A scripted service\<close>

text \<open>A service that answers its calls in order from a fixed list, whatever the request,
  and raises once the list is used up. It serves as the concrete service of the examples.\<close>

definition scripted :: "(error + ai_reply) list \<Rightarrow> ai_service" where
  "scripted rs tr rq =
     (if length tr < length rs then rs ! length tr else Inl (ServiceError ''no more replies''))"

definition says :: "string \<Rightarrow> error + ai_reply" where
  "says txt = Inr \<lparr>answerText = Some txt, analysis = None\<rparr>"

section \<open>Properties of the parser\<close>

text \<open>The model on some texts and values: what parses and what does not, and what converts
  to which number.\<close>

lemma JSON_parse_examples:
  "JSON_parse ''{\"a\": [1, -2.5e1, true, null], \"a\": \"x\"}''
     = Some (JObj [(''a'', JArr [JNum (Finite 1), JNum (Finite (- 25)), JBool True, JNull]),
                   (''a'', JStr ''x'')])"
  "JSON_parse '' [ ] '' = Some (JArr [])"
  "JSON_parse ''{\"a\": 1,}'' = None"
  "JSON_parse ''{\"a\": 01}'' = None"
  "JSON_parse ''{a: 1}'' = None"
  "JSON_parse ''{\"a\": 1} {\"b\": 2}'' = None"
  "JSON_parse ''[1, 2'' = None"
  "JSON_parse [] = None"
  by code_simp+

lemma to_number_examples:
  "to_number (JStr '' 85 '') = Inr (Finite 85)"
  "to_number (JStr ''0x1F'') = Inr (Finite 31)"
  "to_number (JStr ''high'') = Inr NaN"
  "to_number (JStr []) = Inr (Finite 0)"
  "to_number JNull = Inr (Finite 0)"
  "to_number JUndefined = Inr NaN"
  "to_number (JArr [JStr ''7'']) = Inr (Finite 7)"
  "to_number (JArr [JNum (Finite 1), JNum (Finite 2)]) = Inr NaN"
  "to_number (JObj []) = Inr NaN"
  "to_number (JObj [(''toString'', JNum (Finite 1))]) = Inl TypeError"
  by code_simp+

text \<open>A text that starts with an opening brace parses to an object or not at all: the
  recogniser never leaves the outermost object before the input ends.\<close>

lemma complete_bottom_object:
  assumes "bottom_object st"
  shows "outer_object (fst (complete v st)) (snd (complete v st))"
proof (cases st)
  case Nil
  with assms show ?thesis by (simp add: bottom_object_def)
next
  case (Cons c st')
  show ?thesis
  proof (cases c)
    case (CArr vs)
    with Cons assms have "st' \<noteq> []" by (auto simp: bottom_object_def)
    with Cons CArr assms show ?thesis by (simp add: outer_object_def bottom_object_def)
  next
    case (CObj ms k)
    with Cons assms show ?thesis
      by (cases "st' = []") (simp_all add: outer_object_def bottom_object_def)
  qed
qed

lemma start_value_bottom_object:
  assumes "bottom_object st" and "start_value t st = Some (s', st')"
  shows "outer_object s' st'"
proof -
  have ne: "st \<noteq> []" using assms(1) by (simp add: bottom_object_def)
  have c: "\<And>v. complete v st = (s', st') \<Longrightarrow> outer_object s' st'"
    using complete_bottom_object [OF assms(1)] by (metis fst_conv snd_conv)
  show ?thesis
    using assms ne c by (cases t) (auto simp: outer_object_def)
qed

lemma bottom_object_push: "outer_object s st \<Longrightarrow> \<not> done_state s \<Longrightarrow> st \<noteq> [] \<Longrightarrow> bottom_object (c # st)"
  by (auto simp: outer_object_def bottom_object_def)

lemma step_outer_object:
  assumes "outer_object s st" and "step s st t = Some (s', st')"
  shows "outer_object s' st'"
proof (cases "st = []")
  case True
  with assms show ?thesis
    by (cases s) (auto simp: outer_object_def bottom_object_def split: token.splits if_splits)
next
  case False
  with assms(1) have b: "bottom_object st" and nd: "\<not> done_state s"
    by (auto simp: outer_object_def)
  have c: "\<And>v. complete v st = (s', st') \<Longrightarrow> outer_object s' st'"
    using complete_bottom_object [OF b] by (metis fst_conv snd_conv)
  have push: "\<And>x. bottom_object (x # st)"
    using b False by (simp add: bottom_object_def)
  have keep: "\<And>s2. \<not> done_state s2 \<Longrightarrow> outer_object s2 st"
    using b False by (simp add: outer_object_def)
  show ?thesis
  proof (cases s)
    case SValue
    with assms(2) show ?thesis using start_value_bottom_object [OF b] by simp
  next
    case SArrFirst
    with assms(2) show ?thesis
      using c start_value_bottom_object [OF push] by (auto split: if_splits)
  next
    case (SArrNext vs)
    with assms(2) show ?thesis
      using c push by (auto split: if_splits simp: outer_object_def)
  next
    case SObjFirst
    with assms(2) show ?thesis
      using c keep by (auto split: token.splits)
  next
    case (SObjKey ms)
    with assms(2) show ?thesis
      using keep by (auto split: token.splits)
  next
    case (SObjColon ms k)
    with assms(2) show ?thesis
      using push by (auto split: if_splits simp: outer_object_def)
  next
    case (SObjNext ms)
    with assms(2) show ?thesis
      using c keep by (auto split: if_splits)
  next
    case (SDone v)
    with assms(2) show ?thesis by simp
  qed
qed

lemma run_outer_object:
  "outer_object s st \<Longrightarrow> run ts s st = Some v \<Longrightarrow> \<exists>ms. v = JObj ms"
proof (induction ts arbitrary: s st)
  case Nil
  then show ?case
  proof (cases s)
    case (SDone w)
    with Nil show ?thesis
      by (cases w) (auto simp: outer_object_def split: if_splits)
  qed (auto simp: outer_object_def split: if_splits)
next
  case (Cons t ts)
  then show ?case
    by (auto split: option.splits dest: step_outer_object)
qed

lemma parse_brace_object:
  assumes "JSON_parse (CHR ''{'' # r) = Some v"
  shows "\<exists>ms. v = JObj ms"
proof -
  from assms obtain ts where "lex r = Some ts" and "run (TLBrace # ts) SValue [] = Some v"
    by (auto simp: JSON_parse_def split: option.splits)
  then have "run ts SObjFirst [] = Some v" by simp
  then show ?thesis using run_outer_object [of SObjFirst "[]"] by (simp add: outer_object_def)
qed

lemma match_json_brace: "match_json text = Some m \<Longrightarrow> \<exists>r. m = CHR ''{'' # r"
proof -
  assume a: "match_json text = Some m"
  then obtain c r where d: "dropWhile (\<lambda>c. c \<noteq> CHR ''{'') text = c # r"
    by (auto simp: match_json_def split: list.splits)
  have "c = CHR ''{''"
    using hd_dropWhile [of "\<lambda>c. c \<noteq> CHR ''{''" "text"] d by auto
  with a d show ?thesis
    by (auto simp: match_json_def split: if_splits)
qed

lemma parsed_match_object:
  "match_json text = Some m \<Longrightarrow> JSON_parse m = Some v \<Longrightarrow> \<exists>ms. v = JObj ms"
  using match_json_brace parse_brace_object by blast

section \<open>Properties of the detection\<close>

lemma detect_returns:
  "\<exists>ci tr'. detectImageClarity env imageBase64 mimeType tr = (Inr ci, tr')"
  by (simp add: detectImageClarity_def split: prod.splits sum.splits)

lemma get_prop_spread:
  "get_prop (ds @ ms) k = (if has_prop ms k then get_prop ms k else get_prop ds k)"
proof (cases "map_of (rev ms) k")
  case None
  then have "\<not> has_prop ms k"
    by (simp add: has_prop_def map_of_eq_None_iff)
  with None show ?thesis by (simp add: map_add_def)
next
  case (Some v)
  then have "has_prop ms k"
    using map_of_eq_None_iff [of "rev ms" k] by (auto simp: has_prop_def)
  with Some show ?thesis by (simp add: map_add_def)
qed

lemma get_prop_absent: "\<not> has_prop ms k \<Longrightarrow> get_prop ms k = JUndefined"
  using map_of_eq_None_iff [of "rev ms" k] by (auto simp: has_prop_def split: option.splits)

lemma coalesce_get_prop:
  "coalesce (get_prop ms k) d =
     (if has_prop ms k \<and> \<not> nullish (get_prop ms k) then get_prop ms k else d)"
  by (auto simp: coalesce_def get_prop_absent simp del: get_prop.simps)

lemma match_json_span:
  assumes "CHR ''{'' \<notin> set pre" and "CHR ''}'' \<notin> set post"
  shows "match_json (pre @ CHR ''{'' # mid @ CHR ''}'' # post) = Some (CHR ''{'' # mid @ [CHR ''}''])"
proof -
  have a: "dropWhile (\<lambda>c. c \<noteq> CHR ''{'') (pre @ CHR ''{'' # mid @ CHR ''}'' # post)
             = CHR ''{'' # mid @ CHR ''}'' # post"
    using assms(1) by (subst dropWhile_append2) auto
  have "dropWhile (\<lambda>c. c \<noteq> CHR ''}'') (rev post @ CHR ''}'' # rev mid) = CHR ''}'' # rev mid"
    using assms(2) by (subst dropWhile_append2) auto
  then have b: "rev (dropWhile (\<lambda>c. c \<noteq> CHR ''}'') (rev (mid @ CHR ''}'' # post))) = mid @ [CHR ''}'']"
    by simp
  show ?thesis
    unfolding match_json_def a using b by simp
qed

lemma detect_of_reply:
  assumes "aiService tr (clarity_request imageBase64 mimeType) = Inr result"
  shows "detectImageClarity (Inr aiService) imageBase64 mimeType tr =
           (case clarity_of_text (reply_text result) of
              Inl e \<Rightarrow> Inr (clarity_default rec_failed)
            | Inr r \<Rightarrow> Inr r,
            tr @ [clarity_request imageBase64 mimeType])"
  using assms
  by (simp add: detectImageClarity_def detect_try_def reanswerQuestion_def split: sum.splits)

lemma clarity_of_object:
  "clarity_of_parsed (JObj ms) =
     Inr \<lparr>isBlurry = coalesce (get_prop ms ''isBlurry'') (JBool False),
          clarityScore = coalesce (get_prop ms ''clarityScore'') (JNum (Finite 80)),
          recommendation = coalesce (get_prop ms ''recommendation'') (JStr rec_done)\<rparr>"
  by (simp add: clarity_of_parsed_def del: get_prop.simps)

lemma detect_trace:
  "detectImageClarity env imageBase64 mimeType tr = (r, tr1) \<Longrightarrow>
     (case env of Inl e \<Rightarrow> tr1 = tr | Inr s \<Rightarrow> tr1 = tr @ [clarity_request imageBase64 mimeType])"
  by (auto simp: detectImageClarity_def detect_try_def reanswerQuestion_def
           split: sum.splits prod.splits)

lemma detect_unavailable:
  "detectImageClarity (Inl e) imageBase64 mimeType tr = (Inr (clarity_default rec_failed), tr)"
  by (simp add: detectImageClarity_def detect_try_def)

text \<open>
  Claim C9. Whenever the external call of the detection raises (also when the service cannot
  be obtained), \<^verbatim>\<open>detectImageClarity\<close> returns instead of raising, and what it returns is
  the default of a failed detection, with \<^verbatim>\<open>isBlurry\<close> false and \<^verbatim>\<open>clarityScore\<close> 80.
\<close>

theorem detect_transport_error:
  assumes "env = Inl e
           \<or> (env = Inr aiService
               \<and> aiService tr (clarity_request imageBase64 mimeType) = Inl e)"
  shows "\<exists>ci tr'. detectImageClarity env imageBase64 mimeType tr = (Inr ci, tr')
           \<and> ci = clarity_default rec_failed
           \<and> isBlurry ci = JBool False \<and> clarityScore ci = JNum (Finite 80)"
  using assms
  by (auto simp: detectImageClarity_def detect_try_def reanswerQuestion_def clarity_default_def)

theorem detect_transport_error_witness:
  "(\<exists>ci tr'. detectImageClarity (Inl (ServiceError ''no provider'')) ''AAAA'' ''image/jpeg'' []
                = (Inr ci, tr')
            \<and> ci = clarity_default rec_failed
            \<and> isBlurry ci = JBool False \<and> clarityScore ci = JNum (Finite 80))
   \<and> scripted [Inl (ServiceError ''timeout'')] [] (clarity_request ''AAAA'' ''image/jpeg'')
       = Inl (ServiceError ''timeout'')
   \<and> (\<exists>ci tr'. detectImageClarity (Inr (scripted [Inl (ServiceError ''timeout'')]))
                  ''AAAA'' ''image/jpeg'' [] = (Inr ci, tr')
            \<and> ci = clarity_default rec_failed
            \<and> isBlurry ci = JBool False \<and> clarityScore ci = JNum (Finite 80))"
proof -
  have h: "scripted [Inl (ServiceError ''timeout'')] [] (clarity_request ''AAAA'' ''image/jpeg'')
             = Inl (ServiceError ''timeout'')"
    by (simp add: scripted_def)
  have a: "\<exists>ci tr'. detectImageClarity (Inl (ServiceError ''no provider'')) ''AAAA''
                     ''image/jpeg'' [] = (Inr ci, tr')
             \<and> ci = clarity_default rec_failed
             \<and> isBlurry ci = JBool False \<and> clarityScore ci = JNum (Finite 80)"
    by (rule detect_transport_error [where e = "ServiceError ''no provider''"]) simp
  have b: "\<exists>ci tr'. detectImageClarity (Inr (scripted [Inl (ServiceError ''timeout'')]))
                     ''AAAA'' ''image/jpeg'' [] = (Inr ci, tr')
             \<and> ci = clarity_default rec_failed
             \<and> isBlurry ci = JBool False \<and> clarityScore ci = JNum (Finite 80)"
    by (rule detect_transport_error [where e = "ServiceError ''timeout''"
          and aiService = "scripted [Inl (ServiceError ''timeout'')]"]) (simp add: h)
  from a h b show ?thesis by (intro conjI)
qed

text \<open>
  Claim C8. When the reply of the service holds no JSON object (no opening brace followed by
  a closing one), or the text found does not parse, \<^verbatim>\<open>detectImageClarity\<close> returns a
  default result: the one of a good image in the first case, the one of a failed detection in
  the second (the failing parse raises into the \<^verbatim>\<open>catch\<close> block). Both have
  \<^verbatim>\<open>isBlurry\<close> false and \<^verbatim>\<open>clarityScore\<close> 80.
\<close>

theorem detect_unparseable_reply:
  assumes "aiService tr (clarity_request imageBase64 mimeType) = Inr result"
      and "match_json (reply_text result) = None
           \<or> (\<exists>m. match_json (reply_text result) = Some m \<and> JSON_parse m = None)"
  shows "\<exists>ci. detectImageClarity (Inr aiService) imageBase64 mimeType tr
                 = (Inr ci, tr @ [clarity_request imageBase64 mimeType])
           \<and> ci = clarity_default (if match_json (reply_text result) = None
                                    then rec_good else rec_failed)
           \<and> isBlurry ci = JBool False \<and> clarityScore ci = JNum (Finite 80)"
  using assms(2) detect_of_reply [of aiService tr imageBase64 mimeType result, OF assms(1)]
  by (auto simp: clarity_of_text_def clarity_default_def)

text \<open>
  The two cases at concrete replies: a reply without braces, and a reply whose braces hold
  no JSON (the key is not quoted).
\<close>

theorem detect_unparseable_reply_witness:
  "scripted [says ''The image looks sharp.''] [] (clarity_request ''AAAA'' ''image/jpeg'')
     = says ''The image looks sharp.''
   \<and> match_json ''The image looks sharp.'' = None
   \<and> (\<exists>ci. detectImageClarity (Inr (scripted [says ''The image looks sharp.''])) ''AAAA''
               ''image/jpeg'' [] = (Inr ci, [] @ [clarity_request ''AAAA'' ''image/jpeg''])
          \<and> ci = clarity_default rec_good
          \<and> isBlurry ci = JBool False \<and> clarityScore ci = JNum (Finite 80))
   \<and> match_json ''{isBlurry: false}'' = Some ''{isBlurry: false}''
   \<and> JSON_parse ''{isBlurry: false}'' = None
   \<and> (\<exists>ci. detectImageClarity (Inr (scripted [says ''{isBlurry: false}''])) ''AAAA''
               ''image/jpeg'' [] = (Inr ci, [] @ [clarity_request ''AAAA'' ''image/jpeg''])
          \<and> ci = clarity_default rec_failed
          \<and> isBlurry ci = JBool False \<and> clarityScore ci = JNum (Finite 80))"
proof -
  have r1: "scripted [says ''The image looks sharp.''] [] (clarity_request ''AAAA'' ''image/jpeg'')
              = Inr \<lparr>answerText = Some ''The image looks sharp.'', analysis = None\<rparr>"
    by (simp add: scripted_def says_def)
  have t1: "reply_text \<lparr>answerText = Some ''The image looks sharp.'', analysis = None\<rparr>
              = ''The image looks sharp.''"
    by (simp add: reply_text_def)
  have m1: "match_json ''The image looks sharp.'' = None"
    by code_simp
  have r2: "scripted [says ''{isBlurry: false}''] [] (clarity_request ''AAAA'' ''image/jpeg'')
              = Inr \<lparr>answerText = Some ''{isBlurry: false}'', analysis = None\<rparr>"
    by (simp add: scripted_def says_def)
  have t2: "reply_text \<lparr>answerText = Some ''{isBlurry: false}'', analysis = None\<rparr>
              = ''{isBlurry: false}''"
    by (simp add: reply_text_def)
  have m2: "match_json ''{isBlurry: false}'' = Some ''{isBlurry: false}''"
    by code_simp
  have p2: "JSON_parse ''{isBlurry: false}'' = None"
    by code_simp
  have a: "\<exists>ci. detectImageClarity (Inr (scripted [says ''The image looks sharp.''])) ''AAAA''
               ''image/jpeg'' [] = (Inr ci, [] @ [clarity_request ''AAAA'' ''image/jpeg''])
          \<and> ci = clarity_default rec_good
          \<and> isBlurry ci = JBool False \<and> clarityScore ci = JNum (Finite 80)"
    using detect_unparseable_reply [of "scripted [says ''The image looks sharp.'']" "[]" "''AAAA''"
            "''image/jpeg''" "\<lparr>answerText = Some ''The image looks sharp.'', analysis = None\<rparr>"]
          r1 m1
    by (simp only: t1 m1 simp_thms if_True)
  have b: "\<exists>ci. detectImageClarity (Inr (scripted [says ''{isBlurry: false}''])) ''AAAA''
               ''image/jpeg'' [] = (Inr ci, [] @ [clarity_request ''AAAA'' ''image/jpeg''])
          \<and> ci = clarity_default rec_failed
          \<and> isBlurry ci = JBool False \<and> clarityScore ci = JNum (Finite 80)"
    using detect_unparseable_reply [of "scripted [says ''{isBlurry: false}'']" "[]" "''AAAA''"
            "''image/jpeg''" "\<lparr>answerText = Some ''{isBlurry: false}'', analysis = None\<rparr>"]
          r2 m2 p2
    by (simp add: t2)
  from r1 m1 a m2 p2 b show ?thesis by (simp add: says_def)
qed

text \<open>
  Claim C4, as amended. The function applies no clamp. It always returns, and the score it
  returns is determined by the reply: when the service replies, the reply holds a text in
  braces, that text parses and the \<^verbatim>\<open>clarityScore\<close> field of the parsed object is
  neither missing nor null, the score is the value of that field, unchanged, whatever it is;
  in every other case (the service failed, the reply holds no JSON, the parse failed, the
  field is missing or null) it is 80. So it lies between 0 and 100 only if the reply's value
  does.
\<close>

theorem detect_score_unclamped:
  "\<exists>ci tr'. detectImageClarity env imageBase64 mimeType tr = (Inr ci, tr')
     \<and> (\<forall>aiService result m ms.
           env = Inr aiService
           \<and> aiService tr (clarity_request imageBase64 mimeType) = Inr result
           \<and> match_json (reply_text result) = Some m
           \<and> JSON_parse m = Some (JObj ms)
           \<and> \<not> nullish (get_prop ms ''clarityScore'')
           \<longrightarrow> clarityScore ci = get_prop ms ''clarityScore'')
     \<and> ((\<forall>aiService result m ms.
           env = Inr aiService
           \<and> aiService tr (clarity_request imageBase64 mimeType) = Inr result
           \<and> match_json (reply_text result) = Some m
           \<and> JSON_parse m = Some (JObj ms)
           \<longrightarrow> nullish (get_prop ms ''clarityScore''))
         \<longrightarrow> clarityScore ci = JNum (Finite 80))"
proof (cases env)
  case (Inl e)
  then show ?thesis
    by (simp add: detectImageClarity_def detect_try_def clarity_default_def)
next
  case (Inr aiService)
  show ?thesis
  proof (cases "aiService tr (clarity_request imageBase64 mimeType)")
    case (Inl e)
    with Inr show ?thesis
      by (simp add: detectImageClarity_def detect_try_def reanswerQuestion_def
                    clarity_default_def)
  next
    case res: (Inr result)
    note d = detect_of_reply [of aiService tr imageBase64 mimeType result, OF res]
    show ?thesis
    proof (cases "match_json (reply_text result)")
      case None
      with Inr d res show ?thesis by (simp add: clarity_of_text_def clarity_default_def)
    next
      case (Some m)
      show ?thesis
      proof (cases "JSON_parse m")
        case None
        with Inr d Some res show ?thesis by (simp add: clarity_of_text_def clarity_default_def)
      next
        case p: (Some parsed)
        from parsed_match_object [OF Some p] obtain ms where ms: "parsed = JObj ms" ..
        show ?thesis
          using Inr d Some p ms res
          by (simp add: clarity_of_text_def clarity_of_object coalesce_def
                   del: get_prop.simps)
      qed
    qed
  qed
qed

text \<open>
  Two instances. For a reply with the score -3 the conditions of the first part hold and the
  result carries -3, a value below 0. For a reply with the score \<^verbatim>\<open>null\<close> the condition
  of the second part holds and the result carries 80.
\<close>

theorem detect_score_unclamped_witness:
  "scripted [says ''{\"isBlurry\": false, \"clarityScore\": -3}''] []
       (clarity_request ''AAAA'' ''image/jpeg'')
     = Inr \<lparr>answerText = Some ''{\"isBlurry\": false, \"clarityScore\": -3}'', analysis = None\<rparr>
   \<and> match_json (reply_text
         \<lparr>answerText = Some ''{\"isBlurry\": false, \"clarityScore\": -3}'', analysis = None\<rparr>)
       = Some ''{\"isBlurry\": false, \"clarityScore\": -3}''
   \<and> JSON_parse ''{\"isBlurry\": false, \"clarityScore\": -3}''
       = Some (JObj [(''isBlurry'', JBool False), (''clarityScore'', JNum (Finite (- 3)))])
   \<and> get_prop [(''isBlurry'', JBool False), (''clarityScore'', JNum (Finite (- 3)))]
         ''clarityScore'' = JNum (Finite (- 3))
   \<and> \<not> nullish (JNum (Finite (- 3)))
   \<and> (\<exists>ci tr'. detectImageClarity
                  (Inr (scripted [says ''{\"isBlurry\": false, \"clarityScore\": -3}'']))
                  ''AAAA'' ''image/jpeg'' [] = (Inr ci, tr')
          \<and> clarityScore ci = JNum (Finite (- 3)))
   \<and> scripted [says ''{\"isBlurry\": true, \"clarityScore\": null}''] []
       (clarity_request ''AAAA'' ''image/jpeg'')
     = Inr \<lparr>answerText = Some ''{\"isBlurry\": true, \"clarityScore\": null}'', analysis = None\<rparr>
   \<and> match_json (reply_text
         \<lparr>answerText = Some ''{\"isBlurry\": true, \"clarityScore\": null}'', analysis = None\<rparr>)
       = Some ''{\"isBlurry\": true, \"clarityScore\": null}''
   \<and> JSON_parse ''{\"isBlurry\": true, \"clarityScore\": null}''
       = Some (JObj [(''isBlurry'', JBool True), (''clarityScore'', JNull)])
   \<and> nullish (get_prop [(''isBlurry'', JBool True), (''clarityScore'', JNull)] ''clarityScore'')
   \<and> (\<exists>ci tr'. detectImageClarity
                  (Inr (scripted [says ''{\"isBlurry\": true, \"clarityScore\": null}'']))
                  ''AAAA'' ''image/jpeg'' [] = (Inr ci, tr')
          \<and> clarityScore ci = JNum (Finite 80))"
proof -
  let ?s1 = "''{\"isBlurry\": false, \"clarityScore\": -3}''"
  let ?s2 = "''{\"isBlurry\": true, \"clarityScore\": null}''"
  have r1: "scripted [says ?s1] [] (clarity_request ''AAAA'' ''image/jpeg'')
              = Inr \<lparr>answerText = Some ?s1, analysis = None\<rparr>"
    by (simp add: scripted_def says_def)
  have m1: "match_json (reply_text \<lparr>answerText = Some ?s1, analysis = None\<rparr>) = Some ?s1"
    by code_simp
  have p1: "JSON_parse ?s1
              = Some (JObj [(''isBlurry'', JBool False), (''clarityScore'', JNum (Finite (- 3)))])"
    by code_simp
  have g1: "get_prop [(''isBlurry'', JBool False), (''clarityScore'', JNum (Finite (- 3)))]
              ''clarityScore'' = JNum (Finite (- 3))"
    by code_simp
  have n1: "\<not> nullish (JNum (Finite (- 3)))"
    by simp
  have r2: "scripted [says ?s2] [] (clarity_request ''AAAA'' ''image/jpeg'')
              = Inr \<lparr>answerText = Some ?s2, analysis = None\<rparr>"
    by (simp add: scripted_def says_def)
  have m2: "match_json (reply_text \<lparr>answerText = Some ?s2, analysis = None\<rparr>) = Some ?s2"
    by code_simp
  have p2: "JSON_parse ?s2 = Some (JObj [(''isBlurry'', JBool True), (''clarityScore'', JNull)])"
    by code_simp
  have g2: "nullish (get_prop [(''isBlurry'', JBool True), (''clarityScore'', JNull)]
              ''clarityScore'')"
    by code_simp
  from detect_score_unclamped [of "Inr (scripted [says ?s1])" "''AAAA''" "''image/jpeg''" "[]"]
  obtain ci tr' where
    d: "detectImageClarity (Inr (scripted [says ?s1])) ''AAAA'' ''image/jpeg'' [] = (Inr ci, tr')"
    and f: "\<And>aiService result m ms.
           Inr (scripted [says ?s1]) = (Inr aiService :: ai_env)
           \<and> aiService [] (clarity_request ''AAAA'' ''image/jpeg'') = Inr result
           \<and> match_json (reply_text result) = Some m
           \<and> JSON_parse m = Some (JObj ms)
           \<and> \<not> nullish (get_prop ms ''clarityScore'')
           \<Longrightarrow> clarityScore ci = get_prop ms ''clarityScore''"
    by blast
  have "clarityScore ci = JNum (Finite (- 3))"
    using f [of "scripted [says ?s1]" "\<lparr>answerText = Some ?s1, analysis = None\<rparr>" ?s1
               "[(''isBlurry'', JBool False), (''clarityScore'', JNum (Finite (- 3)))]"]
          r1 m1 p1 g1 n1
    by (simp only: simp_thms)
  with d have a: "\<exists>ci tr'. detectImageClarity (Inr (scripted [says ?s1])) ''AAAA'' ''image/jpeg'' []
                     = (Inr ci, tr') \<and> clarityScore ci = JNum (Finite (- 3))"
    by blast
  from detect_score_unclamped [of "Inr (scripted [says ?s2])" "''AAAA''" "''image/jpeg''" "[]"]
  obtain ci2 tr2 where
    d2: "detectImageClarity (Inr (scripted [says ?s2])) ''AAAA'' ''image/jpeg'' [] = (Inr ci2, tr2)"
    and f2: "(\<forall>aiService result m ms.
           Inr (scripted [says ?s2]) = (Inr aiService :: ai_env)
           \<and> aiService [] (clarity_request ''AAAA'' ''image/jpeg'') = Inr result
           \<and> match_json (reply_text result) = Some m
           \<and> JSON_parse m = Some (JObj ms)
           \<longrightarrow> nullish (get_prop ms ''clarityScore''))
         \<Longrightarrow> clarityScore ci2 = JNum (Finite 80)"
    by blast
  have "clarityScore ci2 = JNum (Finite 80)"
  proof (rule f2, intro allI impI, elim conjE)
    fix aiService result m ms
    assume e: "Inr (scripted [says ?s2]) = (Inr aiService :: ai_env)"
      and r: "aiService [] (clarity_request ''AAAA'' ''image/jpeg'') = Inr result"
      and m: "match_json (reply_text result) = Some m"
      and p: "JSON_parse m = Some (JObj ms)"
    from e have "aiService = scripted [says ?s2]" by simp
    with r r2 have "result = \<lparr>answerText = Some ?s2, analysis = None\<rparr>" by simp
    with m m2 have "m = ?s2" by simp
    with p p2 have "ms = [(''isBlurry'', JBool True), (''clarityScore'', JNull)]" by simp
    with g2 show "nullish (get_prop ms ''clarityScore'')" by simp
  qed
  with d2 have b: "\<exists>ci tr'. detectImageClarity (Inr (scripted [says ?s2])) ''AAAA'' ''image/jpeg'' []
                     = (Inr ci, tr') \<and> clarityScore ci = JNum (Finite 80)"
    by blast
  from r1 m1 p1 g1 n1 a r2 m2 p2 g2 b show ?thesis
    by (intro conjI)
qed

text \<open>
  Claim C4 as stated fails: for a reply with the score 150 the result carries 150, which is
  above 100.
\<close>

theorem detect_score_counterexample:
  "detectImageClarity (Inr (scripted [says ''{\"isBlurry\": false, \"clarityScore\": 150}'']))
     ''AAAA'' ''image/jpeg'' []
   = (Inr \<lparr>isBlurry = JBool False, clarityScore = JNum (Finite 150),
            recommendation = JStr rec_done\<rparr>,
      [clarity_request ''AAAA'' ''image/jpeg''])
   \<and> js_gt (JNum (Finite 150)) 100 = Inr True"
  by code_simp

text \<open>
  Claim C6, as amended. The function parses the text from the first opening brace of the reply
  to its last closing brace, as one JSON text. When that text parses, it is an object and its
  fields determine the result; when it does not, as for two objects with text between them,
  the result is the default of a failed detection.
\<close>

theorem detect_parses_outermost_braces:
  assumes "aiService tr (clarity_request imageBase64 mimeType) = Inr result"
      and "reply_text result = pre @ CHR ''{'' # mid @ CHR ''}'' # post"
      and "CHR ''{'' \<notin> set pre" and "CHR ''}'' \<notin> set post"
  shows "match_json (reply_text result) = Some (CHR ''{'' # mid @ [CHR ''}''])
         \<and> (\<exists>ci. detectImageClarity (Inr aiService) imageBase64 mimeType tr
                     = (Inr ci, tr @ [clarity_request imageBase64 mimeType])
              \<and> (JSON_parse (CHR ''{'' # mid @ [CHR ''}'']) = None
                    \<and> ci = clarity_default rec_failed
                  \<or> (\<exists>ms. JSON_parse (CHR ''{'' # mid @ [CHR ''}'']) = Some (JObj ms)
                        \<and> ci = \<lparr>isBlurry = coalesce (get_prop ms ''isBlurry'') (JBool False),
                                 clarityScore =
                                   coalesce (get_prop ms ''clarityScore'') (JNum (Finite 80)),
                                 recommendation =
                                   coalesce (get_prop ms ''recommendation'')
                                     (JStr rec_done)\<rparr>)))"
proof -
  have m: "match_json (reply_text result) = Some (CHR ''{'' # mid @ [CHR ''}''])"
    unfolding assms(2) by (rule match_json_span [OF assms(3,4)])
  note d = detect_of_reply [of aiService tr imageBase64 mimeType result, OF assms(1)]
  show ?thesis
  proof (cases "JSON_parse (CHR ''{'' # mid @ [CHR ''}''])")
    case None
    with m d show ?thesis by (simp add: clarity_of_text_def)
  next
    case (Some parsed)
    from parse_brace_object [OF Some] obtain ms where "parsed = JObj ms" ..
    with m d Some show ?thesis
      by (simp add: clarity_of_text_def clarity_of_object del: get_prop.simps)
  qed
qed

text \<open>
  An instance: one object with text before and after it.
\<close>

theorem detect_parses_outermost_braces_witness:
  "scripted [says ''Result: {\"isBlurry\": true, \"clarityScore\": 40} (done)''] []
       (clarity_request ''AAAA'' ''image/jpeg'')
     = Inr \<lparr>answerText = Some ''Result: {\"isBlurry\": true, \"clarityScore\": 40} (done)'',
            analysis = None\<rparr>
   \<and> CHR ''{'' \<notin> set ''Result: '' \<and> CHR ''}'' \<notin> set '' (done)''
   \<and> match_json ''Result: {\"isBlurry\": true, \"clarityScore\": 40} (done)''
       = Some ''{\"isBlurry\": true, \"clarityScore\": 40}''
   \<and> JSON_parse ''{\"isBlurry\": true, \"clarityScore\": 40}''
       = Some (JObj [(''isBlurry'', JBool True), (''clarityScore'', JNum (Finite 40))])
   \<and> detectImageClarity
         (Inr (scripted [says ''Result: {\"isBlurry\": true, \"clarityScore\": 40} (done)'']))
         ''AAAA'' ''image/jpeg'' []
       = (Inr \<lparr>isBlurry = JBool True, clarityScore = JNum (Finite 40),
                recommendation = JStr rec_done\<rparr>,
          [clarity_request ''AAAA'' ''image/jpeg''])"
proof -
  let ?txt = "''Result: {\"isBlurry\": true, \"clarityScore\": 40} (done)''"
  let ?res = "\<lparr>answerText = Some ?txt, analysis = None\<rparr>"
  have r: "scripted [says ?txt] [] (clarity_request ''AAAA'' ''image/jpeg'') = Inr ?res"
    by (simp add: scripted_def says_def)
  have t: "reply_text ?res = ''Result: '' @ CHR ''{'' # ''\"isBlurry\": true, \"clarityScore\": 40''
                               @ CHR ''}'' # '' (done)''"
    by (simp add: reply_text_def)
  have n1: "CHR ''{'' \<notin> set ''Result: ''" by simp
  have n2: "CHR ''}'' \<notin> set '' (done)''" by simp
  have p: "JSON_parse ''{\"isBlurry\": true, \"clarityScore\": 40}''
             = Some (JObj [(''isBlurry'', JBool True), (''clarityScore'', JNum (Finite 40))])"
    by code_simp
  have c: "coalesce (get_prop [(''isBlurry'', JBool True), (''clarityScore'', JNum (Finite 40))]
                       ''isBlurry'') (JBool False) = JBool True"
      "coalesce (get_prop [(''isBlurry'', JBool True), (''clarityScore'', JNum (Finite 40))]
                       ''clarityScore'') (JNum (Finite 80)) = JNum (Finite 40)"
      "coalesce (get_prop [(''isBlurry'', JBool True), (''clarityScore'', JNum (Finite 40))]
                       ''recommendation'') (JStr rec_done) = JStr rec_done"
    by (simp_all add: coalesce_def)
  from detect_parses_outermost_braces
         [of "scripted [says ?txt]" "[]" "''AAAA''" "''image/jpeg''" ?res "''Result: ''"
             "''\"isBlurry\": true, \"clarityScore\": 40''" "'' (done)''", OF r t n1 n2]
  have m: "match_json (reply_text ?res) = Some ''{\"isBlurry\": true, \"clarityScore\": 40}''"
    and d: "detectImageClarity (Inr (scripted [says ?txt])) ''AAAA'' ''image/jpeg'' []
       = (Inr \<lparr>isBlurry = JBool True, clarityScore = JNum (Finite 40),
                recommendation = JStr rec_done\<rparr>,
          [clarity_request ''AAAA'' ''image/jpeg''])"
    using p c by (auto simp del: get_prop.simps)
  from m have m': "match_json ?txt = Some ''{\"isBlurry\": true, \"clarityScore\": 40}''"
    by (simp add: reply_text_def)
  from r n1 n2 m' p d show ?thesis by (intro conjI)
qed

text \<open>
  Claim C6 as stated fails: for a reply with two objects and text between them, the first
  object alone parses and says blurry with score 10, but the match spans both objects, the
  parse of the match fails and the result is the default of a failed detection.
\<close>

theorem detect_first_object_counterexample:
  "JSON_parse ''{\"isBlurry\": true, \"clarityScore\": 10}''
     = Some (JObj [(''isBlurry'', JBool True), (''clarityScore'', JNum (Finite 10))])
   \<and> match_json ''{\"isBlurry\": true, \"clarityScore\": 10} or {\"isBlurry\": false, \"clarityScore\": 90}''
     = Some ''{\"isBlurry\": true, \"clarityScore\": 10} or {\"isBlurry\": false, \"clarityScore\": 90}''
   \<and> detectImageClarity
       (Inr (scripted [says ''{\"isBlurry\": true, \"clarityScore\": 10} or {\"isBlurry\": false, \"clarityScore\": 90}'']))
       ''AAAA'' ''image/jpeg'' []
     = (Inr \<lparr>isBlurry = JBool False, clarityScore = JNum (Finite 80),
              recommendation = JStr rec_failed\<rparr>,
        [clarity_request ''AAAA'' ''image/jpeg''])"
  by code_simp

text \<open>
  Claim C7, as amended. When the text found in a reply parses, it is an object. In
  \<^verbatim>\<open>detectImageClarity\<close> each of the three fields is taken from it when it is present and
  not null, and is the default otherwise (\<^verbatim>\<open>isBlurry\<close> false, \<^verbatim>\<open>clarityScore\<close> 80, the
  recommendation of a completed detection). In the judgment of \<^verbatim>\<open>enhanceImageClarity\<close>
  every field that is present, null included, replaces the default, and an absent field keeps
  it (\<^verbatim>\<open>canEnhance\<close> false, \<^verbatim>\<open>suggestedText\<close> empty, \<^verbatim>\<open>needsRetake\<close> false,
  \<^verbatim>\<open>confidence\<close> 0).
\<close>

theorem parsed_fields_override:
  assumes "match_json txt = Some m" and "JSON_parse m = Some parsed"
  shows "\<exists>ms. parsed = JObj ms
     \<and> (\<forall>aiService tr imageBase64 mimeType result.
           aiService tr (clarity_request imageBase64 mimeType) = Inr result
           \<and> reply_text result = txt \<longrightarrow>
           (\<exists>ci. detectImageClarity (Inr aiService) imageBase64 mimeType tr
                    = (Inr ci, tr @ [clarity_request imageBase64 mimeType])
              \<and> isBlurry ci =
                  (if has_prop ms ''isBlurry'' \<and> \<not> nullish (get_prop ms ''isBlurry'')
                   then get_prop ms ''isBlurry'' else JBool False)
              \<and> clarityScore ci =
                  (if has_prop ms ''clarityScore'' \<and> \<not> nullish (get_prop ms ''clarityScore'')
                   then get_prop ms ''clarityScore'' else JNum (Finite 80))
              \<and> recommendation ci =
                  (if has_prop ms ''recommendation''
                      \<and> \<not> nullish (get_prop ms ''recommendation'')
                   then get_prop ms ''recommendation'' else JStr rec_done)))
     \<and> (\<forall>k. get_prop (enhancement_of_text txt) k =
               (if has_prop ms k then get_prop ms k else get_prop enhancement_defaults k))
     \<and> get_prop enhancement_defaults ''canEnhance'' = JBool False
     \<and> get_prop enhancement_defaults ''suggestedText'' = JStr []
     \<and> get_prop enhancement_defaults ''needsRetake'' = JBool False
     \<and> get_prop enhancement_defaults ''confidence'' = JNum (Finite 0)"
proof -
  from parsed_match_object [OF assms] obtain ms where ms: "parsed = JObj ms" ..
  have t: "clarity_of_text txt =
             Inr \<lparr>isBlurry = coalesce (get_prop ms ''isBlurry'') (JBool False),
                  clarityScore = coalesce (get_prop ms ''clarityScore'') (JNum (Finite 80)),
                  recommendation = coalesce (get_prop ms ''recommendation'') (JStr rec_done)\<rparr>"
    using assms ms by (simp add: clarity_of_text_def clarity_of_object del: get_prop.simps)
  have a: "\<And>aiService tr imageBase64 mimeType result.
             aiService tr (clarity_request imageBase64 mimeType) = Inr result
             \<and> reply_text result = txt \<Longrightarrow>
             (\<exists>ci. detectImageClarity (Inr aiService) imageBase64 mimeType tr
                      = (Inr ci, tr @ [clarity_request imageBase64 mimeType])
                \<and> isBlurry ci =
                    (if has_prop ms ''isBlurry'' \<and> \<not> nullish (get_prop ms ''isBlurry'')
                     then get_prop ms ''isBlurry'' else JBool False)
                \<and> clarityScore ci =
                    (if has_prop ms ''clarityScore''
                        \<and> \<not> nullish (get_prop ms ''clarityScore'')
                     then get_prop ms ''clarityScore'' else JNum (Finite 80))
                \<and> recommendation ci =
                    (if has_prop ms ''recommendation''
                        \<and> \<not> nullish (get_prop ms ''recommendation'')
                     then get_prop ms ''recommendation'' else JStr rec_done))"
  proof -
    fix aiService :: ai_service and tr imageBase64 mimeType result
    assume h: "aiService tr (clarity_request imageBase64 mimeType) = Inr result
               \<and> reply_text result = txt"
    then have "detectImageClarity (Inr aiService) imageBase64 mimeType tr =
                 (Inr \<lparr>isBlurry = coalesce (get_prop ms ''isBlurry'') (JBool False),
                       clarityScore =
                         coalesce (get_prop ms ''clarityScore'') (JNum (Finite 80)),
                       recommendation =
                         coalesce (get_prop ms ''recommendation'') (JStr rec_done)\<rparr>,
                  tr @ [clarity_request imageBase64 mimeType])"
      using detect_of_reply [of aiService tr imageBase64 mimeType result] t by simp
    then show "\<exists>ci. detectImageClarity (Inr aiService) imageBase64 mimeType tr
                      = (Inr ci, tr @ [clarity_request imageBase64 mimeType])
                \<and> isBlurry ci =
                    (if has_prop ms ''isBlurry'' \<and> \<not> nullish (get_prop ms ''isBlurry'')
                     then get_prop ms ''isBlurry'' else JBool False)
                \<and> clarityScore ci =
                    (if has_prop ms ''clarityScore''
                        \<and> \<not> nullish (get_prop ms ''clarityScore'')
                     then get_prop ms ''clarityScore'' else JNum (Finite 80))
                \<and> recommendation ci =
                    (if has_prop ms ''recommendation''
                        \<and> \<not> nullish (get_prop ms ''recommendation'')
                     then get_prop ms ''recommendation'' else JStr rec_done)"
      by (simp add: coalesce_get_prop del: get_prop.simps)
  qed
  have b: "\<forall>k. get_prop (enhancement_of_text txt) k =
               (if has_prop ms k then get_prop ms k else get_prop enhancement_defaults k)"
    using assms ms by (simp add: enhancement_of_text_def get_prop_spread del: get_prop.simps)
  have c: "get_prop enhancement_defaults ''canEnhance'' = JBool False
     \<and> get_prop enhancement_defaults ''suggestedText'' = JStr []
     \<and> get_prop enhancement_defaults ''needsRetake'' = JBool False
     \<and> get_prop enhancement_defaults ''confidence'' = JNum (Finite 0)"
    by (simp add: enhancement_defaults_def)
  from ms a b c show ?thesis by blast
qed

text \<open>
  An instance: a reply with a score and a null confidence. The detection takes the score
  and keeps the two other defaults; the judgment takes the null.
\<close>

theorem parsed_fields_override_witness:
  "match_json ''{\"clarityScore\": 35, \"confidence\": null}''
     = Some ''{\"clarityScore\": 35, \"confidence\": null}''
   \<and> JSON_parse ''{\"clarityScore\": 35, \"confidence\": null}''
     = Some (JObj [(''clarityScore'', JNum (Finite 35)), (''confidence'', JNull)])
   \<and> scripted [says ''{\"clarityScore\": 35, \"confidence\": null}''] []
       (clarity_request ''AAAA'' ''image/jpeg'')
     = Inr \<lparr>answerText = Some ''{\"clarityScore\": 35, \"confidence\": null}'', analysis = None\<rparr>
   \<and> (\<exists>ci. detectImageClarity
               (Inr (scripted [says ''{\"clarityScore\": 35, \"confidence\": null}'']))
               ''AAAA'' ''image/jpeg'' []
             = (Inr ci, [clarity_request ''AAAA'' ''image/jpeg''])
          \<and> isBlurry ci = JBool False
          \<and> clarityScore ci = JNum (Finite 35)
          \<and> recommendation ci = JStr rec_done)
   \<and> get_prop (enhancement_of_text ''{\"clarityScore\": 35, \"confidence\": null}'')
        ''confidence'' = JNull
   \<and> get_prop (enhancement_of_text ''{\"clarityScore\": 35, \"confidence\": null}'')
        ''canEnhance'' = JBool False"
proof -
  let ?txt = "''{\"clarityScore\": 35, \"confidence\": null}''"
  let ?ms = "[(''clarityScore'', JNum (Finite 35)), (''confidence'', JNull)]"
  let ?res = "\<lparr>answerText = Some ?txt, analysis = None\<rparr>"
  have m: "match_json ?txt = Some ?txt" by code_simp
  have p: "JSON_parse ?txt = Some (JObj ?ms)" by code_simp
  have r: "scripted [says ?txt] [] (clarity_request ''AAAA'' ''image/jpeg'') = Inr ?res"
    by (simp add: scripted_def says_def)
  have t: "reply_text ?res = ?txt" by (simp add: reply_text_def)
  have h: "has_prop ?ms ''clarityScore''" "has_prop ?ms ''confidence''"
    "\<not> has_prop ?ms ''isBlurry''" "\<not> has_prop ?ms ''recommendation''"
    "\<not> has_prop ?ms ''canEnhance''"
    by (simp_all add: has_prop_def)
  have g: "get_prop ?ms ''clarityScore'' = JNum (Finite 35)" "get_prop ?ms ''confidence'' = JNull"
    by simp_all
  from parsed_fields_override [OF m p] obtain ms where
    ms: "JObj ?ms = JObj ms"
    and d: "\<forall>aiService tr imageBase64 mimeType result.
           aiService tr (clarity_request imageBase64 mimeType) = Inr result
           \<and> reply_text result = ?txt \<longrightarrow>
           (\<exists>ci. detectImageClarity (Inr aiService) imageBase64 mimeType tr
                    = (Inr ci, tr @ [clarity_request imageBase64 mimeType])
              \<and> isBlurry ci =
                  (if has_prop ms ''isBlurry'' \<and> \<not> nullish (get_prop ms ''isBlurry'')
                   then get_prop ms ''isBlurry'' else JBool False)
              \<and> clarityScore ci =
                  (if has_prop ms ''clarityScore'' \<and> \<not> nullish (get_prop ms ''clarityScore'')
                   then get_prop ms ''clarityScore'' else JNum (Finite 80))
              \<and> recommendation ci =
                  (if has_prop ms ''recommendation''
                      \<and> \<not> nullish (get_prop ms ''recommendation'')
                   then get_prop ms ''recommendation'' else JStr rec_done))"
    and e: "\<forall>k. get_prop (enhancement_of_text ?txt) k =
               (if has_prop ms k then get_prop ms k else get_prop enhancement_defaults k)"
    and c: "get_prop enhancement_defaults ''canEnhance'' = JBool False"
    by blast
  from ms have eq: "ms = ?ms" by simp
  from d [rule_format, of "scripted [says ?txt]" "[]" "''AAAA''" "''image/jpeg''" ?res] r t
  have d': "\<exists>ci. detectImageClarity (Inr (scripted [says ?txt])) ''AAAA'' ''image/jpeg'' []
             = (Inr ci, [clarity_request ''AAAA'' ''image/jpeg''])
          \<and> isBlurry ci = JBool False
          \<and> clarityScore ci = JNum (Finite 35)
          \<and> recommendation ci = JStr rec_done"
    unfolding eq using h g by (simp del: get_prop.simps)
  from e [rule_format, of "''confidence''"] have e1:
    "get_prop (enhancement_of_text ?txt) ''confidence'' = JNull"
    unfolding eq using h g by (simp del: get_prop.simps)
  from e [rule_format, of "''canEnhance''"] c have e2:
    "get_prop (enhancement_of_text ?txt) ''canEnhance'' = JBool False"
    unfolding eq using h by (simp del: get_prop.simps)
  from m p r d' e1 e2 show ?thesis by (intro conjI)
qed

text \<open>
  Claim C7 as stated fails, whichever way a null field is counted. In the reply below both
  fields are present and null: the detection keeps its default 80 for the score, so it does not
  take a field that is present, and the judgment takes the null for the confidence, so it does
  not treat the field as the detection does.
\<close>

theorem parsed_fields_counterexample:
  "JSON_parse ''{\"clarityScore\": null, \"confidence\": null}''
     = Some (JObj [(''clarityScore'', JNull), (''confidence'', JNull)])
   \<and> has_prop [(''clarityScore'', JNull), (''confidence'', JNull)] ''clarityScore''
   \<and> has_prop [(''clarityScore'', JNull), (''confidence'', JNull)] ''confidence''
   \<and> detectImageClarity
       (Inr (scripted [says ''{\"clarityScore\": null, \"confidence\": null}'']))
       ''AAAA'' ''image/jpeg'' []
     = (Inr \<lparr>isBlurry = JBool False, clarityScore = JNum (Finite 80),
              recommendation = JStr rec_done\<rparr>,
        [clarity_request ''AAAA'' ''image/jpeg''])
   \<and> get_prop (enhancement_of_text ''{\"clarityScore\": null, \"confidence\": null}'')
         ''confidence'' = JNull
   \<and> get_prop enhancement_defaults ''confidence'' = JNum (Finite 0)"
  by code_simp

section \<open>Properties of the enhancement\<close>

lemma enhance_returns:
  "\<exists>r tr'. enhanceImageClarity env imageBase64 mimeType tr = (Inr r, tr')"
  by (simp add: enhanceImageClarity_def split: prod.splits sum.splits)

lemma enhance_fields:
  "enhanceImageClarity env imageBase64 mimeType tr = (Inr r, tr') \<Longrightarrow>
     enhancedBase64 r = original_of imageBase64 \<and> originalBase64 r = original_of imageBase64"
  by (auto simp: enhanceImageClarity_def enhance_try_def enhancement_failed_def Let_def
           split: sum.splits prod.splits)

lemma enhance_of_replies:
  assumes "aiService tr (analyze_request imageBase64 mimeType) = Inr analysisResult"
      and "aiService (tr @ [analyze_request imageBase64 mimeType])
             (enhancement_request analysisResult) = Inr enhancementResult"
  shows "fst (enhanceImageClarity (Inr aiService) imageBase64 mimeType tr) =
           (case js_gt (get_prop (enhancement_of_text (reply_text enhancementResult))
                          ''confidence'') 50 of
              Inl e \<Rightarrow> Inr (enhancement_failed imageBase64)
            | Inr b \<Rightarrow>
                Inr \<lparr>enhancedBase64 = original_of imageBase64,
                     originalBase64 = original_of imageBase64,
                     improvementScore =
                       get_prop (enhancement_of_text (reply_text enhancementResult))
                         ''confidence'',
                     success = b\<rparr>)"
  using assms
  by (simp add: enhanceImageClarity_def enhance_try_def reanswerQuestion_def Let_def
           split: sum.splits del: get_prop.simps)

lemma enhance_no_reply:
  assumes "env = Inl e
           \<or> (env = Inr aiService
               \<and> (aiService tr (analyze_request imageBase64 mimeType) = Inl e
                  \<or> (\<exists>analysisResult.
                        aiService tr (analyze_request imageBase64 mimeType)
                          = Inr analysisResult
                        \<and> aiService (tr @ [analyze_request imageBase64 mimeType])
                            (enhancement_request analysisResult) = Inl e)))"
  shows "fst (enhanceImageClarity env imageBase64 mimeType tr)
           = Inr (enhancement_failed imageBase64)"
  using assms
  by (auto simp: enhanceImageClarity_def enhance_try_def reanswerQuestion_def)

lemma enhance_trace:
  "\<exists>ei rest. enhanceImageClarity (Inr aiService) imageBase64 mimeType tr
      = (Inr ei, tr @ analyze_request imageBase64 mimeType # rest)"
  by (auto simp: enhanceImageClarity_def enhance_try_def reanswerQuestion_def Let_def
           split: sum.splits prod.splits)

text \<open>
  Claim C2, as amended. \<^verbatim>\<open>enhanceImageClarity\<close> always returns. Its two image fields are
  equal; they hold the input itself when the input does not start with \<^verbatim>\<open>data:\<close>, and
  otherwise the text between the first and the second comma of the input (nothing when the
  input has no comma), whatever the success. When both calls reply, \<^verbatim>\<open>success\<close> holds if
  and only if the comparison \<^verbatim>\<open>confidence > 50\<close> of the judgment holds; when a call raises,
  \<^verbatim>\<open>success\<close> is false.
\<close>

theorem enhance_result:
  "\<exists>r tr'. enhanceImageClarity env imageBase64 mimeType tr = (Inr r, tr')
     \<and> enhancedBase64 r = originalBase64 r
     \<and> originalBase64 r =
         (if starts_with_data imageBase64 then split_comma_1 imageBase64 else Some imageBase64)
     \<and> (\<forall>aiService analysisResult enhancementResult.
           env = Inr aiService
           \<and> aiService tr (analyze_request imageBase64 mimeType) = Inr analysisResult
           \<and> aiService (tr @ [analyze_request imageBase64 mimeType])
               (enhancement_request analysisResult) = Inr enhancementResult
           \<longrightarrow> success r =
                 (js_gt (get_prop (enhancement_of_text (reply_text enhancementResult))
                           ''confidence'') 50 = Inr True))
     \<and> ((env = Inl e
          \<or> (env = Inr aiService
              \<and> (aiService tr (analyze_request imageBase64 mimeType) = Inl e
                 \<or> (\<exists>analysisResult.
                       aiService tr (analyze_request imageBase64 mimeType)
                         = Inr analysisResult
                       \<and> aiService (tr @ [analyze_request imageBase64 mimeType])
                           (enhancement_request analysisResult) = Inl e))))
         \<longrightarrow> \<not> success r)"
proof -
  from enhance_returns [of env imageBase64 mimeType tr] obtain r tr'
    where r: "enhanceImageClarity env imageBase64 mimeType tr = (Inr r, tr')" by blast
  have f: "enhancedBase64 r = originalBase64 r"
    "originalBase64 r =
       (if starts_with_data imageBase64 then split_comma_1 imageBase64 else Some imageBase64)"
    using enhance_fields [OF r] by (simp_all add: original_of_def)
  have s: "\<forall>aiService analysisResult enhancementResult.
           env = Inr aiService
           \<and> aiService tr (analyze_request imageBase64 mimeType) = Inr analysisResult
           \<and> aiService (tr @ [analyze_request imageBase64 mimeType])
               (enhancement_request analysisResult) = Inr enhancementResult
           \<longrightarrow> success r =
                 (js_gt (get_prop (enhancement_of_text (reply_text enhancementResult))
                           ''confidence'') 50 = Inr True)"
  proof (intro allI impI)
    fix aiService :: ai_service and analysisResult enhancementResult
    assume h: "env = Inr aiService
           \<and> aiService tr (analyze_request imageBase64 mimeType) = Inr analysisResult
           \<and> aiService (tr @ [analyze_request imageBase64 mimeType])
               (enhancement_request analysisResult) = Inr enhancementResult"
    from enhance_of_replies [of aiService tr imageBase64 mimeType analysisResult
                                enhancementResult] h r
    show "success r =
            (js_gt (get_prop (enhancement_of_text (reply_text enhancementResult))
                      ''confidence'') 50 = Inr True)"
      by (auto simp: enhancement_failed_def split: sum.splits simp del: get_prop.simps)
  qed
  have n: "(env = Inl e
          \<or> (env = Inr aiService
              \<and> (aiService tr (analyze_request imageBase64 mimeType) = Inl e
                 \<or> (\<exists>analysisResult.
                       aiService tr (analyze_request imageBase64 mimeType)
                         = Inr analysisResult
                       \<and> aiService (tr @ [analyze_request imageBase64 mimeType])
                           (enhancement_request analysisResult) = Inl e))))
         \<longrightarrow> \<not> success r"
    using enhance_no_reply [of env e aiService tr imageBase64 mimeType] r
    by (auto simp: enhancement_failed_def)
  from r f s n show ?thesis by blast
qed

text \<open>
  Two instances: both calls reply and the judgment has confidence 90, and the service
  cannot be obtained for a data URL.
\<close>

theorem enhance_result_witness:
  "scripted [says ''a page of text'', says ''{\"confidence\": 90}''] []
       (analyze_request ''AAAA'' ''image/jpeg'')
     = Inr \<lparr>answerText = Some ''a page of text'', analysis = None\<rparr>
   \<and> scripted [says ''a page of text'', says ''{\"confidence\": 90}'']
       ([] @ [analyze_request ''AAAA'' ''image/jpeg''])
       (enhancement_request \<lparr>answerText = Some ''a page of text'', analysis = None\<rparr>)
     = Inr \<lparr>answerText = Some ''{\"confidence\": 90}'', analysis = None\<rparr>
   \<and> js_gt (get_prop (enhancement_of_text
                        (reply_text \<lparr>answerText = Some ''{\"confidence\": 90}'',
                                     analysis = None\<rparr>)) ''confidence'') 50 = Inr True
   \<and> (\<exists>r tr'. enhanceImageClarity
                  (Inr (scripted [says ''a page of text'', says ''{\"confidence\": 90}'']))
                  ''AAAA'' ''image/jpeg'' [] = (Inr r, tr')
          \<and> enhancedBase64 r = originalBase64 r
          \<and> originalBase64 r = Some ''AAAA''
          \<and> success r)
   \<and> (\<exists>r tr'. enhanceImageClarity (Inl (ServiceError ''no provider''))
                  ''data:image/png;base64,AAAA'' ''image/jpeg'' [] = (Inr r, tr')
          \<and> enhancedBase64 r = originalBase64 r
          \<and> originalBase64 r = Some ''AAAA''
          \<and> \<not> success r)"
proof -
  let ?svc = "scripted [says ''a page of text'', says ''{\"confidence\": 90}'']"
  let ?ar = "\<lparr>answerText = Some ''a page of text'', analysis = None\<rparr>"
  let ?er = "\<lparr>answerText = Some ''{\"confidence\": 90}'', analysis = None\<rparr>"
  have r1: "?svc [] (analyze_request ''AAAA'' ''image/jpeg'') = Inr ?ar"
    by (simp add: scripted_def says_def)
  have r2: "?svc ([] @ [analyze_request ''AAAA'' ''image/jpeg'']) (enhancement_request ?ar)
              = Inr ?er"
    by (simp add: scripted_def says_def)
  have c: "js_gt (get_prop (enhancement_of_text (reply_text ?er)) ''confidence'') 50 = Inr True"
    by code_simp
  have s1: "\<not> starts_with_data ''AAAA''" by (simp add: starts_with_data_def)
  have s2: "starts_with_data ''data:image/png;base64,AAAA''"
    by (simp add: starts_with_data_def)
  have s3: "split_comma_1 ''data:image/png;base64,AAAA'' = Some ''AAAA''"
    by code_simp
  from enhance_result [of "Inr ?svc" "''AAAA''" "''image/jpeg''" "[]"]
  obtain r tr' where
    a: "enhanceImageClarity (Inr ?svc) ''AAAA'' ''image/jpeg'' [] = (Inr r, tr')"
       "enhancedBase64 r = originalBase64 r"
       "originalBase64 r = (if starts_with_data ''AAAA'' then split_comma_1 ''AAAA''
                            else Some ''AAAA'')"
    and b: "\<forall>aiService analysisResult enhancementResult.
           (Inr ?svc :: ai_env) = Inr aiService
           \<and> aiService [] (analyze_request ''AAAA'' ''image/jpeg'') = Inr analysisResult
           \<and> aiService ([] @ [analyze_request ''AAAA'' ''image/jpeg''])
               (enhancement_request analysisResult) = Inr enhancementResult
           \<longrightarrow> success r =
                 (js_gt (get_prop (enhancement_of_text (reply_text enhancementResult))
                           ''confidence'') 50 = Inr True)"
    by blast
  from b [rule_format, of ?svc ?ar ?er] r1 r2 c have "success r" by blast
  with a s1 have w1: "\<exists>r tr'. enhanceImageClarity (Inr ?svc) ''AAAA'' ''image/jpeg'' []
                        = (Inr r, tr')
          \<and> enhancedBase64 r = originalBase64 r
          \<and> originalBase64 r = Some ''AAAA''
          \<and> success r"
    by auto
  from enhance_result [of "Inl (ServiceError ''no provider'')" "''data:image/png;base64,AAAA''"
                          "''image/jpeg''" "[]" "ServiceError ''no provider''"]
  have w2: "\<exists>r tr'. enhanceImageClarity (Inl (ServiceError ''no provider''))
                  ''data:image/png;base64,AAAA'' ''image/jpeg'' [] = (Inr r, tr')
          \<and> enhancedBase64 r = originalBase64 r
          \<and> originalBase64 r = Some ''AAAA''
          \<and> \<not> success r"
    using s2 s3 by auto
  from r1 r2 c w1 w2 show ?thesis by (intro conjI)
qed

text \<open>
  Claim C2 as stated fails: for a data URL the two image fields hold the data without the
  prefix, not the input; and for a data URL whose data holds commas they hold neither the
  input nor its data, only the part of the data before its first comma.
\<close>

theorem enhance_result_counterexample:
  "enhanceImageClarity (Inr (scripted [says ''a page of text'', says ''{\"confidence\": 90}'']))
     ''data:image/png;base64,AAAA'' ''image/png'' []
   = (Inr \<lparr>enhancedBase64 = Some ''AAAA'', originalBase64 = Some ''AAAA'',
            improvementScore = JNum (Finite 90), success = True\<rparr>,
      [analyze_request ''data:image/png;base64,AAAA'' ''image/png'',
       enhancement_request \<lparr>answerText = Some ''a page of text'', analysis = None\<rparr>])
   \<and> ''AAAA'' \<noteq> ''data:image/png;base64,AAAA''
   \<and> enhanceImageClarity (Inr (scripted [says ''a drawing'', says ''{\"confidence\": 90}'']))
     ''data:image/svg+xml;utf8,<svg viewBox=\"0,0,1,1\"/>'' ''image/svg+xml'' []
   = (Inr \<lparr>enhancedBase64 = Some ''<svg viewBox=\"0'', originalBase64 = Some ''<svg viewBox=\"0'',
            improvementScore = JNum (Finite 90), success = True\<rparr>,
      [analyze_request ''data:image/svg+xml;utf8,<svg viewBox=\"0,0,1,1\"/>'' ''image/svg+xml'',
       enhancement_request \<lparr>answerText = Some ''a drawing'', analysis = None\<rparr>])
   \<and> ''<svg viewBox=\"0'' \<noteq> ''data:image/svg+xml;utf8,<svg viewBox=\"0,0,1,1\"/>''
   \<and> ''<svg viewBox=\"0'' \<noteq> ''<svg viewBox=\"0,0,1,1\"/>''"
  by code_simp

section \<open>Properties of the pipeline\<close>

lemma default_is_good: "clarity_good (clarity_default txt) = Inr True"
  by (simp add: clarity_good_def clarity_default_def js_ge_def to_number_def is_nan_def num_less_def unsigned_zero_def)

lemma extract_trace:
  "\<exists>txt. extract_text (Inr aiService) imageBase64 mimeType tr
      = (txt, tr @ [extraction_request imageBase64 mimeType])"
  by (auto simp: extract_text_def reanswerQuestion_def split: sum.splits prod.splits)

lemma clarity_good_cases:
  "clarity_good ci = Inr True \<longleftrightarrow> (\<not> truthy (isBlurry ci) \<and> js_ge (clarityScore ci) 70 = Inr True)"
  "clarity_good ci = Inr False \<longleftrightarrow> (truthy (isBlurry ci) \<or> js_ge (clarityScore ci) 70 = Inr False)"
  by (auto simp: clarity_good_def)

lemma process_good:
  assumes "detectImageClarity env imageBase64 mimeType tr = (Inr ci, tr1)"
      and "clarity_good ci = Inr True"
  shows "processImageWithClarityCheck env imageBase64 mimeType tr =
           (Inr \<lparr>finalImage = Some imageBase64, clarityInfo = ci,
                 enhancementInfo = None, suggestedText = None\<rparr>, tr1)"
  using assms by (simp add: processImageWithClarityCheck_def)

lemma process_poor:
  assumes "detectImageClarity env imageBase64 mimeType tr = (Inr ci, tr1)"
      and "clarity_good ci = Inr False"
  shows "\<exists>ei rest txt.
           enhanceImageClarity env imageBase64 mimeType tr1
             = (Inr ei, tr1 @ analyze_request imageBase64 mimeType # rest)
           \<and> extract_text env imageBase64 mimeType
                (tr1 @ analyze_request imageBase64 mimeType # rest)
             = (txt, tr1 @ analyze_request imageBase64 mimeType # rest
                       @ [extraction_request imageBase64 mimeType])
           \<and> processImageWithClarityCheck env imageBase64 mimeType tr =
               (Inr \<lparr>finalImage = (if success ei then enhancedBase64 ei else Some imageBase64),
                     clarityInfo = ci, enhancementInfo = Some ei, suggestedText = Some txt\<rparr>,
                tr1 @ analyze_request imageBase64 mimeType # rest
                    @ [extraction_request imageBase64 mimeType])"
proof (cases env)
  case (Inl e)
  with assms(1) have "ci = clarity_default rec_failed"
    by (simp add: detect_unavailable)
  with assms(2) show ?thesis by (simp add: default_is_good)
next
  case (Inr aiService)
  from enhance_trace [of aiService imageBase64 mimeType tr1] obtain ei rest
    where e: "enhanceImageClarity (Inr aiService) imageBase64 mimeType tr1
                = (Inr ei, tr1 @ analyze_request imageBase64 mimeType # rest)" by blast
  from extract_trace [of aiService imageBase64 mimeType
                         "tr1 @ analyze_request imageBase64 mimeType # rest"]
  obtain extracted where x: "extract_text (Inr aiService) imageBase64 mimeType
                         (tr1 @ analyze_request imageBase64 mimeType # rest)
                       = (extracted, (tr1 @ analyze_request imageBase64 mimeType # rest)
                                 @ [extraction_request imageBase64 mimeType])" by blast
  have "processImageWithClarityCheck env imageBase64 mimeType tr =
               (Inr \<lparr>finalImage = (if success ei then enhancedBase64 ei else Some imageBase64),
                     clarityInfo = ci, enhancementInfo = Some ei,
                     suggestedText = Some extracted\<rparr>,
                tr1 @ analyze_request imageBase64 mimeType # rest
                    @ [extraction_request imageBase64 mimeType])"
    using assms e x Inr by (simp add: processImageWithClarityCheck_def)
  with e x Inr show ?thesis by auto
qed

text \<open>
  Claim C1, as amended. After the detection (at most one call of the service),
  \<^verbatim>\<open>processImageWithClarityCheck\<close> returns at once, with only the final image and the
  clarity result, when \<^verbatim>\<open>isBlurry\<close> is falsy and \<^verbatim>\<open>clarityScore >= 70\<close> holds. When
  \<^verbatim>\<open>isBlurry\<close> is truthy or \<^verbatim>\<open>clarityScore >= 70\<close> is false (the score is below 70, or it
  converts to no number), it runs the enhancement, which starts with the analysis call, and then
  makes the text-extraction call, and the outcome carries both further fields. So an outcome
  that is returned has the enhancement result, and the suggested text, if and only if
  \<^verbatim>\<open>isBlurry\<close> is truthy or \<^verbatim>\<open>clarityScore >= 70\<close> is false.
\<close>

theorem process_enhances_iff:
  assumes "detectImageClarity env imageBase64 mimeType tr = (Inr ci, tr1)"
  shows "(tr1 = tr \<or> tr1 = tr @ [clarity_request imageBase64 mimeType])
     \<and> (\<not> truthy (isBlurry ci) \<and> js_ge (clarityScore ci) 70 = Inr True \<longrightarrow>
          processImageWithClarityCheck env imageBase64 mimeType tr =
            (Inr \<lparr>finalImage = Some imageBase64, clarityInfo = ci,
                  enhancementInfo = None, suggestedText = None\<rparr>, tr1))
     \<and> (truthy (isBlurry ci) \<or> js_ge (clarityScore ci) 70 = Inr False \<longrightarrow>
          (\<exists>ei rest txt.
             enhanceImageClarity env imageBase64 mimeType tr1
               = (Inr ei, tr1 @ analyze_request imageBase64 mimeType # rest)
             \<and> extract_text env imageBase64 mimeType
                  (tr1 @ analyze_request imageBase64 mimeType # rest)
               = (txt, tr1 @ analyze_request imageBase64 mimeType # rest
                         @ [extraction_request imageBase64 mimeType])
             \<and> processImageWithClarityCheck env imageBase64 mimeType tr =
                 (Inr \<lparr>finalImage = (if success ei then enhancedBase64 ei
                                      else Some imageBase64),
                       clarityInfo = ci, enhancementInfo = Some ei,
                       suggestedText = Some txt\<rparr>,
                  tr1 @ analyze_request imageBase64 mimeType # rest
                      @ [extraction_request imageBase64 mimeType])))
     \<and> (\<forall>out tr'. processImageWithClarityCheck env imageBase64 mimeType tr = (Inr out, tr') \<longrightarrow>
          (enhancementInfo out \<noteq> None
             \<longleftrightarrow> truthy (isBlurry ci) \<or> js_ge (clarityScore ci) 70 = Inr False)
          \<and> (suggestedText out \<noteq> None
             \<longleftrightarrow> truthy (isBlurry ci) \<or> js_ge (clarityScore ci) 70 = Inr False))"
proof -
  have a: "tr1 = tr \<or> tr1 = tr @ [clarity_request imageBase64 mimeType]"
    using detect_trace [OF assms] by (cases env) auto
  have b: "\<not> truthy (isBlurry ci) \<and> js_ge (clarityScore ci) 70 = Inr True \<longrightarrow>
          processImageWithClarityCheck env imageBase64 mimeType tr =
            (Inr \<lparr>finalImage = Some imageBase64, clarityInfo = ci,
                  enhancementInfo = None, suggestedText = None\<rparr>, tr1)"
    using process_good [OF assms] by (simp add: clarity_good_cases)
  have c: "truthy (isBlurry ci) \<or> js_ge (clarityScore ci) 70 = Inr False \<longrightarrow>
          (\<exists>ei rest txt.
             enhanceImageClarity env imageBase64 mimeType tr1
               = (Inr ei, tr1 @ analyze_request imageBase64 mimeType # rest)
             \<and> extract_text env imageBase64 mimeType
                  (tr1 @ analyze_request imageBase64 mimeType # rest)
               = (txt, tr1 @ analyze_request imageBase64 mimeType # rest
                         @ [extraction_request imageBase64 mimeType])
             \<and> processImageWithClarityCheck env imageBase64 mimeType tr =
                 (Inr \<lparr>finalImage = (if success ei then enhancedBase64 ei
                                      else Some imageBase64),
                       clarityInfo = ci, enhancementInfo = Some ei,
                       suggestedText = Some txt\<rparr>,
                  tr1 @ analyze_request imageBase64 mimeType # rest
                      @ [extraction_request imageBase64 mimeType]))"
    using process_poor [OF assms] by (simp only: clarity_good_cases) blast
  have d: "\<forall>out tr'. processImageWithClarityCheck env imageBase64 mimeType tr = (Inr out, tr') \<longrightarrow>
          (enhancementInfo out \<noteq> None
             \<longleftrightarrow> truthy (isBlurry ci) \<or> js_ge (clarityScore ci) 70 = Inr False)
          \<and> (suggestedText out \<noteq> None
             \<longleftrightarrow> truthy (isBlurry ci) \<or> js_ge (clarityScore ci) 70 = Inr False)"
  proof (cases "clarity_good ci")
    case (Inl e)
    with assms show ?thesis by (simp add: processImageWithClarityCheck_def)
  next
    case (Inr g)
    show ?thesis
    proof (cases g)
      case True
      with Inr have g: "clarity_good ci = Inr True" by simp
      have n: "\<not> (truthy (isBlurry ci) \<or> js_ge (clarityScore ci) 70 = Inr False)"
        using g by (auto simp: clarity_good_def split: if_splits)
      show ?thesis using process_good [OF assms g] n by auto
    next
      case False
      with Inr have g: "clarity_good ci = Inr False" by simp
      have n: "truthy (isBlurry ci) \<or> js_ge (clarityScore ci) 70 = Inr False"
        using g by (simp add: clarity_good_cases)
      from process_poor [OF assms g] show ?thesis using n by auto
    qed
  qed
  from a b c d show ?thesis by (intro conjI)
qed

text \<open>
  Two instances: a sharp image with score 85, where one call is made, and a blurry one,
  where the enhancement and the extraction follow (the extraction call fails here and the
  suggested text is empty).
\<close>

theorem process_enhances_iff_witness:
  "detectImageClarity (Inr (scripted [says ''{\"isBlurry\": false, \"clarityScore\": 85}'']))
     ''AAAA'' ''image/jpeg'' []
   = (Inr \<lparr>isBlurry = JBool False, clarityScore = JNum (Finite 85),
            recommendation = JStr rec_done\<rparr>, [clarity_request ''AAAA'' ''image/jpeg''])
   \<and> \<not> truthy (JBool False) \<and> js_ge (JNum (Finite 85)) 70 = Inr True
   \<and> processImageWithClarityCheck
       (Inr (scripted [says ''{\"isBlurry\": false, \"clarityScore\": 85}'']))
       ''AAAA'' ''image/jpeg'' []
     = (Inr \<lparr>finalImage = Some ''AAAA'',
              clarityInfo = \<lparr>isBlurry = JBool False, clarityScore = JNum (Finite 85),
                              recommendation = JStr rec_done\<rparr>,
              enhancementInfo = None, suggestedText = None\<rparr>,
        [clarity_request ''AAAA'' ''image/jpeg''])
   \<and> detectImageClarity
       (Inr (scripted [says ''{\"isBlurry\": true, \"clarityScore\": 40}'',
                       says ''a page of text'', says ''{\"confidence\": 30}'',
                       Inl (ServiceError ''timeout'')]))
       ''AAAA'' ''image/jpeg'' []
     = (Inr \<lparr>isBlurry = JBool True, clarityScore = JNum (Finite 40),
              recommendation = JStr rec_done\<rparr>, [clarity_request ''AAAA'' ''image/jpeg''])
   \<and> truthy (JBool True)
   \<and> (\<exists>ei rest extracted.
         processImageWithClarityCheck
           (Inr (scripted [says ''{\"isBlurry\": true, \"clarityScore\": 40}'',
                           says ''a page of text'', says ''{\"confidence\": 30}'',
                           Inl (ServiceError ''timeout'')]))
           ''AAAA'' ''image/jpeg'' []
         = (Inr \<lparr>finalImage = (if success ei then enhancedBase64 ei else Some ''AAAA''),
                  clarityInfo = \<lparr>isBlurry = JBool True, clarityScore = JNum (Finite 40),
                                  recommendation = JStr rec_done\<rparr>,
                  enhancementInfo = Some ei, suggestedText = Some extracted\<rparr>,
            [clarity_request ''AAAA'' ''image/jpeg''] @ analyze_request ''AAAA'' ''image/jpeg''
              # rest @ [extraction_request ''AAAA'' ''image/jpeg'']))"
proof -
  let ?good = "Inr (scripted [says ''{\"isBlurry\": false, \"clarityScore\": 85}'']) :: ai_env"
  let ?poor = "Inr (scripted [says ''{\"isBlurry\": true, \"clarityScore\": 40}'',
                       says ''a page of text'', says ''{\"confidence\": 30}'',
                       Inl (ServiceError ''timeout'')]) :: ai_env"
  let ?cg = "\<lparr>isBlurry = JBool False, clarityScore = JNum (Finite 85),
            recommendation = JStr rec_done\<rparr>"
  let ?cp = "\<lparr>isBlurry = JBool True, clarityScore = JNum (Finite 40),
            recommendation = JStr rec_done\<rparr>"
  have d1: "detectImageClarity ?good ''AAAA'' ''image/jpeg'' []
              = (Inr ?cg, [clarity_request ''AAAA'' ''image/jpeg''])"
    by code_simp
  have g1: "\<not> truthy (JBool False)" "js_ge (JNum (Finite 85)) 70 = Inr True"
    by (simp_all add: js_ge_def to_number_def is_nan_def num_less_def unsigned_zero_def)
  from process_enhances_iff [OF d1] g1
  have p1: "processImageWithClarityCheck ?good ''AAAA'' ''image/jpeg'' []
     = (Inr \<lparr>finalImage = Some ''AAAA'', clarityInfo = ?cg,
              enhancementInfo = None, suggestedText = None\<rparr>,
        [clarity_request ''AAAA'' ''image/jpeg''])"
    by simp
  have d2: "detectImageClarity ?poor ''AAAA'' ''image/jpeg'' []
              = (Inr ?cp, [clarity_request ''AAAA'' ''image/jpeg''])"
    by code_simp
  have g2: "truthy (JBool True)" by simp
  have i2: "truthy (isBlurry ?cp) \<or> js_ge (clarityScore ?cp) 70 = Inr False"
    by simp
  from process_enhances_iff [OF d2] i2
  have p2: "\<exists>ei rest extracted.
         processImageWithClarityCheck ?poor ''AAAA'' ''image/jpeg'' []
         = (Inr \<lparr>finalImage = (if success ei then enhancedBase64 ei else Some ''AAAA''),
                  clarityInfo = ?cp,
                  enhancementInfo = Some ei, suggestedText = Some extracted\<rparr>,
            [clarity_request ''AAAA'' ''image/jpeg''] @ analyze_request ''AAAA'' ''image/jpeg''
              # rest @ [extraction_request ''AAAA'' ''image/jpeg''])"
    by blast
  from d1 g1 p1 d2 g2 p2 show ?thesis by (intro conjI)
qed

text \<open>
  Claim C1 as stated fails: for a reply whose score is the string \<^verbatim>\<open>high\<close>,
  \<^verbatim>\<open>isBlurry\<close> is false and \<^verbatim>\<open>clarityScore < 70\<close> is false, but so is
  \<^verbatim>\<open>clarityScore >= 70\<close>, and the enhancement and the extraction are run.
\<close>

theorem process_enhances_counterexample:
  "detectImageClarity
     (Inr (scripted [says ''{\"isBlurry\": false, \"clarityScore\": \"high\"}'',
                     says ''a page of text'', says ''{\"confidence\": 90}'',
                     says ''x + 1 = 2'']))
     ''AAAA'' ''image/jpeg'' []
   = (Inr \<lparr>isBlurry = JBool False, clarityScore = JStr ''high'',
            recommendation = JStr rec_done\<rparr>,
      [clarity_request ''AAAA'' ''image/jpeg''])
   \<and> \<not> truthy (JBool False)
   \<and> js_lt (JStr ''high'') 70 = Inr False
   \<and> processImageWithClarityCheck
     (Inr (scripted [says ''{\"isBlurry\": false, \"clarityScore\": \"high\"}'',
                     says ''a page of text'', says ''{\"confidence\": 90}'',
                     says ''x + 1 = 2'']))
     ''AAAA'' ''image/jpeg'' []
   = (Inr \<lparr>finalImage = Some ''AAAA'',
            clarityInfo = \<lparr>isBlurry = JBool False, clarityScore = JStr ''high'',
                            recommendation = JStr rec_done\<rparr>,
            enhancementInfo = Some \<lparr>enhancedBase64 = Some ''AAAA'',
                                     originalBase64 = Some ''AAAA'',
                                     improvementScore = JNum (Finite 90), success = True\<rparr>,
            suggestedText = Some ''x + 1 = 2''\<rparr>,
      [clarity_request ''AAAA'' ''image/jpeg'', analyze_request ''AAAA'' ''image/jpeg'',
       enhancement_request \<lparr>answerText = Some ''a page of text'', analysis = None\<rparr>,
       extraction_request ''AAAA'' ''image/jpeg''])"
  by code_simp

text \<open>
  Claim C5, as amended. The final image of a returned outcome is the input string, except when
  the enhancement succeeded on an input that starts with \<^verbatim>\<open>data:\<close>: then it is the text
  between the first and the second comma of the input. In particular it is the input whenever
  the input does not start with \<^verbatim>\<open>data:\<close>.
\<close>

theorem process_final_image:
  assumes "processImageWithClarityCheck env imageBase64 mimeType tr = (Inr out, tr')"
  shows "finalImage out =
           (if (\<exists>ei. enhancementInfo out = Some ei \<and> success ei)
               \<and> starts_with_data imageBase64
            then split_comma_1 imageBase64 else Some imageBase64)"
proof -
  from detect_returns [of env imageBase64 mimeType tr] obtain ci tr1
    where d: "detectImageClarity env imageBase64 mimeType tr = (Inr ci, tr1)" by blast
  show ?thesis
  proof (cases "clarity_good ci")
    case (Inl e)
    with assms d show ?thesis by (simp add: processImageWithClarityCheck_def)
  next
    case (Inr g)
    show ?thesis
    proof (cases g)
      case True
      with Inr process_good [OF d] assms show ?thesis by auto
    next
      case False
      with Inr have g: "clarity_good ci = Inr False" by simp
      from process_poor [OF d g] assms obtain ei rest extracted
        where e: "enhanceImageClarity env imageBase64 mimeType tr1
                    = (Inr ei, tr1 @ analyze_request imageBase64 mimeType # rest)"
          and o: "out = \<lparr>finalImage = (if success ei then enhancedBase64 ei
                                        else Some imageBase64),
                         clarityInfo = ci, enhancementInfo = Some ei,
                         suggestedText = Some extracted\<rparr>"
        by auto
      from enhance_fields [OF e] o show ?thesis
        by (simp add: original_of_def)
    qed
  qed
qed

text \<open>
  An instance: a successful enhancement of an input that is no data URL.
\<close>

theorem process_final_image_witness:
  "processImageWithClarityCheck
     (Inr (scripted [says ''{\"isBlurry\": true, \"clarityScore\": 40}'',
                     says ''a page of text'', says ''{\"confidence\": 90}'',
                     says ''x + 1 = 2'']))
     ''AAAA'' ''image/png'' []
   = (Inr \<lparr>finalImage = Some ''AAAA'',
            clarityInfo = \<lparr>isBlurry = JBool True, clarityScore = JNum (Finite 40),
                            recommendation = JStr rec_done\<rparr>,
            enhancementInfo = Some \<lparr>enhancedBase64 = Some ''AAAA'',
                                     originalBase64 = Some ''AAAA'',
                                     improvementScore = JNum (Finite 90), success = True\<rparr>,
            suggestedText = Some ''x + 1 = 2''\<rparr>,
      [clarity_request ''AAAA'' ''image/png'', analyze_request ''AAAA'' ''image/png'',
       enhancement_request \<lparr>answerText = Some ''a page of text'', analysis = None\<rparr>,
       extraction_request ''AAAA'' ''image/png''])
   \<and> \<not> starts_with_data ''AAAA''
   \<and> finalImage \<lparr>finalImage = Some ''AAAA'',
            clarityInfo = \<lparr>isBlurry = JBool True, clarityScore = JNum (Finite 40),
                            recommendation = JStr rec_done\<rparr>,
            enhancementInfo = Some \<lparr>enhancedBase64 = Some ''AAAA'',
                                     originalBase64 = Some ''AAAA'',
                                     improvementScore = JNum (Finite 90), success = True\<rparr>,
            suggestedText = Some ''x + 1 = 2''\<rparr> = Some ''AAAA''"
proof -
  let ?env = "Inr (scripted [says ''{\"isBlurry\": true, \"clarityScore\": 40}'',
                     says ''a page of text'', says ''{\"confidence\": 90}'',
                     says ''x + 1 = 2'']) :: ai_env"
  let ?out = "\<lparr>finalImage = Some ''AAAA'',
            clarityInfo = \<lparr>isBlurry = JBool True, clarityScore = JNum (Finite 40),
                            recommendation = JStr rec_done\<rparr>,
            enhancementInfo = Some \<lparr>enhancedBase64 = Some ''AAAA'',
                                     originalBase64 = Some ''AAAA'',
                                     improvementScore = JNum (Finite 90), success = True\<rparr>,
            suggestedText = Some ''x + 1 = 2''\<rparr>"
  have p: "processImageWithClarityCheck ?env ''AAAA'' ''image/png'' []
   = (Inr ?out,
      [clarity_request ''AAAA'' ''image/png'', analyze_request ''AAAA'' ''image/png'',
       enhancement_request \<lparr>answerText = Some ''a page of text'', analysis = None\<rparr>,
       extraction_request ''AAAA'' ''image/png''])"
    by code_simp
  have s: "\<not> starts_with_data ''AAAA''" by (simp add: starts_with_data_def)
  have f: "finalImage ?out = Some ''AAAA''"
    unfolding process_final_image [OF p] using s by (simp only: simp_thms if_False)
  from p s f show ?thesis by (intro conjI)
qed

text \<open>
  Claim C5 as stated fails: for a data URL and a successful enhancement, the final image is
  the data without the prefix, not the input.
\<close>

theorem process_final_image_counterexample:
  "processImageWithClarityCheck
     (Inr (scripted [says ''{\"isBlurry\": true, \"clarityScore\": 40}'',
                     says ''a page of text'', says ''{\"confidence\": 90}'',
                     says ''x + 1 = 2'']))
     ''data:image/png;base64,AAAA'' ''image/png'' []
   = (Inr \<lparr>finalImage = Some ''AAAA'',
            clarityInfo = \<lparr>isBlurry = JBool True, clarityScore = JNum (Finite 40),
                            recommendation = JStr rec_done\<rparr>,
            enhancementInfo = Some \<lparr>enhancedBase64 = Some ''AAAA'',
                                     originalBase64 = Some ''AAAA'',
                                     improvementScore = JNum (Finite 90), success = True\<rparr>,
            suggestedText = Some ''x + 1 = 2''\<rparr>,
      [clarity_request ''data:image/png;base64,AAAA'' ''image/png'',
       analyze_request ''data:image/png;base64,AAAA'' ''image/png'',
       enhancement_request \<lparr>answerText = Some ''a page of text'', analysis = None\<rparr>,
       extraction_request ''data:image/png;base64,AAAA'' ''image/png''])
   \<and> Some ''AAAA'' \<noteq> Some ''data:image/png;base64,AAAA''"
  by code_simp

lemma process_raises_iff:
  assumes "detectImageClarity env imageBase64 mimeType tr = (Inr ci, tr1)"
  shows "fst (processImageWithClarityCheck env imageBase64 mimeType tr) = Inl e
           \<longleftrightarrow> e = TypeError \<and> \<not> truthy (isBlurry ci) \<and> no_primitive (clarityScore ci)"
proof (cases "clarity_good ci")
  case (Inl x)
  then have "x = TypeError \<and> \<not> truthy (isBlurry ci) \<and> no_primitive (clarityScore ci)"
    by (auto simp: clarity_good_def js_ge_def to_number_def split: if_splits)
  with Inl assms show ?thesis
    by (auto simp: processImageWithClarityCheck_def)
next
  case (Inr g)
  then have n: "\<not> (\<not> truthy (isBlurry ci) \<and> no_primitive (clarityScore ci))"
    by (auto simp: clarity_good_def js_ge_def to_number_def split: if_splits)
  show ?thesis
  proof (cases g)
    case True
    with Inr process_good [OF assms] n show ?thesis by auto
  next
    case False
    with Inr have "clarity_good ci = Inr False" by simp
    from process_poor [OF assms this] n show ?thesis by auto
  qed
qed

text \<open>
  Claim C3 fails on the code. \<^verbatim>\<open>detectImageClarity\<close> and \<^verbatim>\<open>enhanceImageClarity\<close>
  never raise (lemmas \<open>detect_returns\<close> and \<open>enhance_returns\<close>), but the comparison on line
  507 of \<^verbatim>\<open>processImageWithClarityCheck\<close> stands outside every \<^verbatim>\<open>try\<close> block, and it
  is the one place where the function raises (lemma \<open>process_raises_iff\<close>). For a reply whose
  score is an object with a property named \<^verbatim>\<open>toString\<close>, the comparison raises a TypeError,
  and the function raises it to its caller after the detection call.
\<close>

theorem process_raises_on_unconvertible_score:
  "processImageWithClarityCheck
     (Inr (scripted [says ''{\"isBlurry\": false, \"clarityScore\": {\"toString\": 1}}'']))
     ''AAAA'' ''image/jpeg'' []
   = (Inl TypeError, [clarity_request ''AAAA'' ''image/jpeg''])"
  by code_simp

section \<open>Properties of the route\<close>

text \<open>
  Claim C10. The response of the handler, and the calls it makes, do not depend on the
  \<^verbatim>\<open>autoEnhance\<close> property of the body: two bodies that differ in it only are answered
  alike, with or without a session.
\<close>

theorem post_ignores_autoEnhance:
  "POST session (Inr (b\<lparr>body_autoEnhance := x\<rparr>)) env tr
     = POST session (Inr (b\<lparr>body_autoEnhance := y\<rparr>)) env tr"
  by (cases session; cases "body_imageBase64 b") (simp_all add: POST_def post_try_def Let_def)

text \<open>
  An instance: the same request with the flag true and false, and the response to it.
\<close>

theorem post_ignores_autoEnhance_witness:
  "POST (Some ())
     (Inr \<lparr>body_imageBase64 = JStr ''data:image/png;base64,AAAA'', body_mimeType = None,
           body_checkOnly = JUndefined, body_autoEnhance = JBool True\<rparr>)
     (Inr (scripted [says ''{\"isBlurry\": false, \"clarityScore\": 85}''])) []
   = POST (Some ())
     (Inr \<lparr>body_imageBase64 = JStr ''data:image/png;base64,AAAA'', body_mimeType = None,
           body_checkOnly = JUndefined, body_autoEnhance = JBool False\<rparr>)
     (Inr (scripted [says ''{\"isBlurry\": false, \"clarityScore\": 85}''])) []
   \<and> POST (Some ())
     (Inr \<lparr>body_imageBase64 = JStr ''data:image/png;base64,AAAA'', body_mimeType = None,
           body_checkOnly = JUndefined, body_autoEnhance = JBool False\<rparr>)
     (Inr (scripted [says ''{\"isBlurry\": false, \"clarityScore\": 85}''])) []
   = (Json 200
        (JObj [(''clarity'', JObj [(''isBlurry'', JBool False),
                                   (''clarityScore'', JNum (Finite 85)),
                                   (''recommendation'', JStr rec_done)]),
               (''image'', JObj [(''original'', JStr ''data:image/png;base64,AAAA''),
                                 (''final'', JStr ''data:image/png;base64,AAAA'')])]),
      [clarity_request ''AAAA'' ''image/png''])"
proof -
  let ?b = "\<lparr>body_imageBase64 = JStr ''data:image/png;base64,AAAA'', body_mimeType = None,
           body_checkOnly = JUndefined, body_autoEnhance = JUndefined\<rparr>"
  let ?env = "Inr (scripted [says ''{\"isBlurry\": false, \"clarityScore\": 85}'']) :: ai_env"
  have a: "POST (Some ()) (Inr (?b\<lparr>body_autoEnhance := JBool True\<rparr>)) ?env []
           = POST (Some ()) (Inr (?b\<lparr>body_autoEnhance := JBool False\<rparr>)) ?env []"
    by (rule post_ignores_autoEnhance)
  have b: "POST (Some ())
     (Inr \<lparr>body_imageBase64 = JStr ''data:image/png;base64,AAAA'', body_mimeType = None,
           body_checkOnly = JUndefined, body_autoEnhance = JBool False\<rparr>) ?env []
   = (Json 200
        (JObj [(''clarity'', JObj [(''isBlurry'', JBool False),
                                   (''clarityScore'', JNum (Finite 85)),
                                   (''recommendation'', JStr rec_done)]),
               (''image'', JObj [(''original'', JStr ''data:image/png;base64,AAAA''),
                                 (''final'', JStr ''data:image/png;base64,AAAA'')])]),
      [clarity_request ''AAAA'' ''image/png''])"
    by code_simp
  from a b show ?thesis by simp
qed

end
